theory Spec2Isabelle
  imports Main "HOL-Library.AList"
begin

section \<open>Python values shared by the models\<close>

text \<open>
  An exception instance is its class name and its message. The type stands for instances
  of Python's \<open>Exception\<close> class, which is what the handlers \<open>except Exception\<close> of
  \<open>flojoy.py\<close> and \<open>rq_worker.py\<close> catch.
\<close>

datatype exn = Exn (exn_class: string) (exn_msg: string)

text \<open>Decimal rendering of integers, as \<open>str.format\<close> and \<open>%d\<close> print them.\<close>

definition digit_char :: "nat \<Rightarrow> char" where
  "digit_char n = ''0123456789'' ! (n mod 10)"

function show_nat :: "nat \<Rightarrow> string" where
  "show_nat n = (if n < 10 then [digit_char n] else show_nat (n div 10) @ [digit_char (n mod 10)])"
  by pat_completeness auto
termination
  by (relation "measure id") auto

declare show_nat.simps [simp del]

definition show_int :: "int \<Rightarrow> string" where
  "show_int i = (if i < 0 then CHR ''-'' # show_nat (nat (- i)) else show_nat (nat i))"

primrec starts_with :: "string \<Rightarrow> string \<Rightarrow> bool" where
  "starts_with [] s = True"
| "starts_with (p # ps) s = (case s of [] \<Rightarrow> False | c # cs \<Rightarrow> p = c \<and> starts_with ps cs)"

text \<open>Python's \<open>p in s\<close> on strings: \<open>p\<close> occurs in \<open>s\<close> as a contiguous run.\<close>

primrec occurs_in :: "string \<Rightarrow> string \<Rightarrow> bool" where
  "occurs_in p [] = (p = [])"
| "occurs_in p (c # cs) = (starts_with p (c # cs) \<or> occurs_in p cs)"

section \<open>rq\_worker.py: the death penalty\<close>

text \<open>
  \<open>threading.Timer(interval, function)\<close>, once started, waits in a thread of its own and
  then calls \<open>function\<close> in that thread, unless \<open>cancel()\<close> came first. A timer is
  modelled by its state: waiting with the seconds that remain, fired, or cancelled.
\<close>

datatype timer = Waiting int | Fired | Cancelled

text \<open>
  \<open>WindowsSignalDeathPenalty\<close>: \<open>_timeout\<close> and \<open>_exception\<close> are the two positional
  arguments of the constructor, \<open>dp_kwargs\<close> the keyword arguments it was given
  (\<open>perform_job\<close> passes \<open>job_id\<close>), \<open>_timer\<close> is \<open>None\<close> until the penalty is set up.
\<close>

record death_penalty =
  dp_timeout :: int
  dp_exception :: string
  dp_kwargs :: "(string \<times> string) list"
  dp_timer :: "timer option"

definition dp_init :: "int \<Rightarrow> string \<Rightarrow> (string \<times> string) list \<Rightarrow> death_penalty" where
  "dp_init timeout exception kwargs =
     \<lparr>dp_timeout = timeout, dp_exception = exception, dp_kwargs = kwargs, dp_timer = None\<rparr>"

text \<open>
  \<open>handle_death_penalty\<close> raises; the model returns the exception instance it raises:
  \<open>self._exception("Task exceeded maximum timeout value ({0} seconds)".format(self._timeout))\<close>.
\<close>

definition handle_death_penalty :: "death_penalty \<Rightarrow> exn" where
  "handle_death_penalty dp =
     Exn (dp_exception dp)
       (''Task exceeded maximum timeout value ('' @ show_int (dp_timeout dp) @ '' seconds)'')"

definition setup_death_penalty :: "death_penalty \<Rightarrow> death_penalty" where
  "setup_death_penalty dp = dp\<lparr>dp_timer := Some (Waiting (dp_timeout dp))\<rparr>"

text \<open>\<open>Timer.cancel()\<close> stops a timer that still waits and leaves any other as it is.\<close>

fun timer_cancel :: "timer \<Rightarrow> timer" where
  "timer_cancel (Waiting r) = Cancelled"
| "timer_cancel Fired = Fired"
| "timer_cancel Cancelled = Cancelled"

definition cancel_death_penalty :: "death_penalty \<Rightarrow> death_penalty" where
  "cancel_death_penalty dp =
     (case dp_timer dp of
        None \<Rightarrow> dp
      | Some t \<Rightarrow> dp\<lparr>dp_timer := Some (timer_cancel t)\<rparr>)"

text \<open>
  \<open>d\<close> seconds pass. A timer that waits and whose interval ends before \<open>d\<close> fires: its
  thread calls \<open>handle_death_penalty\<close>, and the exception is raised in the timer's thread.
  The result is the penalty afterwards and what the timer's thread raised.
\<close>

definition dp_elapse :: "int \<Rightarrow> death_penalty \<Rightarrow> death_penalty \<times> exn list" where
  "dp_elapse d dp =
     (case dp_timer dp of
        Some (Waiting r) \<Rightarrow>
          (if r < d then (dp\<lparr>dp_timer := Some Fired\<rparr>, [handle_death_penalty dp])
           else (dp\<lparr>dp_timer := Some (Waiting (r - d))\<rparr>, []))
      | _ \<Rightarrow> (dp, []))"

text \<open>Several stretches of time, one after the other.\<close>

fun dp_elapse_all :: "int list \<Rightarrow> death_penalty \<Rightarrow> death_penalty \<times> exn list" where
  "dp_elapse_all [] dp = (dp, [])"
| "dp_elapse_all (d # ds) dp =
     (case dp_elapse d dp of (dp', es) \<Rightarrow>
        (case dp_elapse_all ds dp' of (dp'', es') \<Rightarrow> (dp'', es @ es')))"

section \<open>rq\_worker.py: WindowsWorker.perform\_job\<close>

datatype job_status = QUEUED | STARTED | FINISHED | FAILED

datatype log_level = INFO | WARNING

text \<open>The calls \<open>perform_job\<close> makes on the pipeline, in the order of the source.\<close>

datatype pipeline_cmd =
    Watch
  | EnqueueDependents
  | SetCurrentJobId
  | IncrementSuccessfulJobCount
  | Save
  | Cleanup int
  | Execute

text \<open>
  A job: \<open>job_result = None\<close> is no result yet, \<open>Some rv\<close> the value \<open>job.perform()\<close>
  returned, where \<open>rv = None\<close> is Python's \<open>None\<close>. \<open>job_status\<close> is the attribute
  \<open>_status\<close>, the status rq keeps and reports; \<open>prepare_job_execution\<close> and the success
  path of \<open>perform_job\<close> write it. \<open>job_status_attr\<close> is the attribute \<open>status\<close>, which
  only the handler of \<open>perform_job\<close> assigns: the versions of rq whose \<open>work\<close> takes
  \<open>with_scheduler\<close> have no property of that name, so the assignment creates a plain
  attribute and leaves \<open>_status\<close> as it is.
\<close>

record 'v job =
  job_id :: string
  job_timeout :: "int option"
  job_result_ttl :: "int option"
  job_status :: job_status
  job_status_attr :: "job_status option"
  job_result :: "'v option option"
  started_at :: "int option"
  ended_at :: "int option"

record worker =
  default_result_ttl :: int
  default_timeout :: int
  log :: "(log_level \<times> string) list"
  pipeline :: "pipeline_cmd list"
  handled :: "(string \<times> exn) list"
  penalty :: "death_penalty option"
  timer_thread_raised :: "exn list"

text \<open>
  What the calls into the job and into the store do during one \<open>perform_job\<close>: the time
  at its start, how long \<open>job.perform()\<close> runs and whether it returns or raises, and
  which pipeline call raises, if any.
\<close>

datatype 'v outcome = Returns "'v option" | Raises exn

record 'v env =
  clock :: int
  body_duration :: int
  body_outcome :: "'v outcome"
  pipeline_fault :: "pipeline_cmd \<Rightarrow> exn option"

text \<open>\<open>job.get_result_ttl(default_ttl)\<close>: the job's own TTL unless it is \<open>None\<close>.\<close>

definition get_result_ttl :: "'v job \<Rightarrow> int \<Rightarrow> int" where
  "get_result_ttl j default_ttl = (case job_result_ttl j of None \<Rightarrow> default_ttl | Some t \<Rightarrow> t)"

text \<open>The body of the \<open>with self.connection.pipeline()\<close> block.\<close>

definition success_cmds :: "int \<Rightarrow> pipeline_cmd list" where
  "success_cmds result_ttl =
     [Watch, EnqueueDependents, SetCurrentJobId, IncrementSuccessfulJobCount]
     @ (if result_ttl \<noteq> 0 then [Save] else [])
     @ [Cleanup result_ttl, Execute]"

text \<open>The calls are made in order; the first that raises ends the block.\<close>

fun run_cmds :: "(pipeline_cmd \<Rightarrow> exn option) \<Rightarrow> pipeline_cmd list \<Rightarrow> pipeline_cmd list \<times> exn option" where
  "run_cmds fault [] = ([], None)"
| "run_cmds fault (c # cs) =
     (case fault c of
        Some e \<Rightarrow> ([], Some e)
      | None \<Rightarrow> (case run_cmds fault cs of (issued, r) \<Rightarrow> (c # issued, r)))"

text \<open>
  The \<open>except Exception\<close> branch: \<open>job.status = rq.job.JobStatus.FAILED\<close>, the call of
  \<open>handle_exception\<close> with the job and the exception, \<open>return False\<close>.
\<close>

definition job_failed :: "exn \<Rightarrow> worker \<Rightarrow> 'v job \<Rightarrow> bool \<times> worker \<times> 'v job" where
  "job_failed e w j =
     (False, w\<lparr>handled := handled w @ [(job_id j, e)]\<rparr>, j\<lparr>job_status_attr := Some FAILED\<rparr>)"

definition ok_message :: "'v option \<Rightarrow> log_level \<times> string" where
  "ok_message rv = (case rv of None \<Rightarrow> (INFO, ''Job OK'') | Some v \<Rightarrow> (INFO, ''Job OK, result =''))"

definition ttl_message :: "int \<Rightarrow> log_level \<times> string" where
  "ttl_message result_ttl =
     (if result_ttl = 0 then (INFO, ''Result discarded immediately.'')
      else if result_ttl > 0 then (INFO, ''Result is kept for '' @ show_int result_ttl @ '' seconds.'')
      else (WARNING, ''Result will never expire, clean up result key manually.''))"

text \<open>\<open>job.timeout or self.queue_class.DEFAULT_TIMEOUT\<close>: \<open>None\<close> and 0 are falsy.\<close>

definition job_timeout_or_default :: "worker \<Rightarrow> 'v job \<Rightarrow> int" where
  "job_timeout_or_default w j =
     (case job_timeout j of
        None \<Rightarrow> default_timeout w
      | Some t \<Rightarrow> if t = 0 then default_timeout w else t)"

text \<open>
  \<open>with self.death_penalty_class(timeout, JobTimeoutException, job_id=job.id)\<close> around a
  body that runs for \<open>d\<close> seconds. The death penalty is a context manager: entering sets
  it up, leaving (by return or by exception) cancels it. While the body runs the timer's
  thread may fire; what it raises is raised in that thread, not in the thread of the body,
  and is recorded in \<open>timer_thread_raised\<close>.
\<close>

definition with_death_penalty :: "worker \<Rightarrow> int \<Rightarrow> string \<Rightarrow> int \<Rightarrow> worker" where
  "with_death_penalty w timeout jid d =
     (let armed = setup_death_penalty (dp_init timeout ''JobTimeoutException'' [(''job_id'', jid)]);
          during = dp_elapse d armed
      in w\<lparr>penalty := Some (cancel_death_penalty (fst during)),
            timer_thread_raised := timer_thread_raised w @ snd during\<rparr>)"

text \<open>
  \<open>perform_job\<close>. \<open>prepare_job_execution\<close> marks the job STARTED; the \<open>try\<close> block
  follows. The result is the value returned, the worker and the job afterwards.
\<close>

definition perform_job :: "worker \<Rightarrow> 'v job \<Rightarrow> 'v env \<Rightarrow> bool \<times> worker \<times> 'v job" where
  "perform_job w j0 env =
     (let j1 = j0\<lparr>job_status := STARTED, started_at := Some (clock env)\<rparr>;
          w1 = with_death_penalty w (job_timeout_or_default w j1) (job_id j1) (body_duration env)
      in case body_outcome env of
           Raises e \<Rightarrow> job_failed e w1 j1
         | Returns rv \<Rightarrow>
             (let j2 = j1\<lparr>ended_at := Some (clock env + body_duration env),
                           job_result := Some rv, job_status := FINISHED\<rparr>;
                  result_ttl = get_result_ttl j2 (default_result_ttl w1);
                  ran = run_cmds (pipeline_fault env) (success_cmds result_ttl);
                  w2 = w1\<lparr>pipeline := pipeline w1 @ fst ran\<rparr>
              in case snd ran of
                   Some e \<Rightarrow> job_failed e w2 j2
                 | None \<Rightarrow>
                     (True, w2\<lparr>log := log w2 @ [ok_message rv, ttl_message result_ttl]\<rparr>, j2)))"

section \<open>Concrete jobs and environments\<close>

definition example_worker :: worker where
  "example_worker =
     \<lparr>default_result_ttl = 500, default_timeout = 180, log = [], pipeline = [],
      handled = [], penalty = None, timer_thread_raised = []\<rparr>"

definition example_job :: "int option \<Rightarrow> int option \<Rightarrow> int job" where
  "example_job timeout ttl =
     \<lparr>job_id = ''job-42'', job_timeout = timeout, job_result_ttl = ttl, job_status = QUEUED,
      job_status_attr = None,
      job_result = None, started_at = None, ended_at = None\<rparr>"

definition example_env :: "int \<Rightarrow> int outcome \<Rightarrow> (pipeline_cmd \<Rightarrow> exn option) \<Rightarrow> int env" where
  "example_env d out fault =
     \<lparr>clock = 0, body_duration = d, body_outcome = out, pipeline_fault = fault\<rparr>"

definition no_fault :: "pipeline_cmd \<Rightarrow> exn option" where
  "no_fault c = None"

definition execute_fault :: "pipeline_cmd \<Rightarrow> exn option" where
  "execute_fault c = (if c = Execute then Some (Exn ''ConnectionError'' ''connection lost'') else None)"

section \<open>flojoy.py: JSON documents and Python's operations on them\<close>

text \<open>
  What \<open>json.loads\<close> returns: \<open>None\<close>, a bool, a number (kept as its literal text), a
  string, a list, or a dict with string keys. A dict is an association list with distinct
  keys in insertion order; \<open>d[k] = v\<close> is \<open>AList.update k v d\<close>, which replaces the value
  of a key that is there and appends a new key.
\<close>

datatype json =
    JNull
  | JBool bool
  | JNum string
  | JStr string
  | JArr "json list"
  | JObj "(string \<times> json) list"

text \<open>
  \<open>k in v\<close> for a string \<open>k\<close>: a key of a dict, an element of a list, a run of
  characters of a string; \<open>TypeError\<close> on a value that is no container.
\<close>

definition py_in :: "string \<Rightarrow> json \<Rightarrow> exn + bool" where
  "py_in k v =
     (case v of
        JObj kvs \<Rightarrow> Inr (k \<in> set (map fst kvs))
      | JArr xs \<Rightarrow> Inr (JStr k \<in> set xs)
      | JStr s \<Rightarrow> Inr (occurs_in k s)
      | _ \<Rightarrow> Inl (Exn ''TypeError'' ''argument is not iterable''))"

text \<open>
  \<open>v[k]\<close> for a string \<open>k\<close>: the value of the key in a dict, \<open>KeyError\<close> when the key is
  missing, \<open>TypeError\<close> on every other value (a list or a string takes integer indices,
  \<open>None\<close>, bools and numbers take none).
\<close>

definition py_getitem :: "json \<Rightarrow> string \<Rightarrow> exn + json" where
  "py_getitem v k =
     (case v of
        JObj kvs \<Rightarrow> (case map_of kvs k of None \<Rightarrow> Inl (Exn ''KeyError'' k) | Some x \<Rightarrow> Inr x)
      | _ \<Rightarrow> Inl (Exn ''TypeError'' ''not subscriptable by a string''))"

text \<open>
  \<open>for i in range(len(elems)): el = elems[i]\<close>: the elements of a list; the characters
  of a string, each a string of length one; a dict has a length, but no key 0;
  \<open>None\<close>, bools and numbers have no length.
\<close>

definition py_elements :: "json \<Rightarrow> exn + json list" where
  "py_elements elems =
     (case elems of
        JArr xs \<Rightarrow> Inr xs
      | JStr s \<Rightarrow> Inr (map (\<lambda>c. JStr [c]) s)
      | JObj kvs \<Rightarrow> (if kvs = [] then Inr [] else Inl (Exn ''KeyError'' ''0''))
      | _ \<Rightarrow> Inl (Exn ''TypeError'' ''object has no len()''))"

text \<open>\<open>s.split(sep)\<close> for a separator of one character.\<close>

fun py_split :: "char \<Rightarrow> string \<Rightarrow> string list" where
  "py_split sep [] = [[]]"
| "py_split sep (c # cs) =
     (if c = sep then [] # py_split sep cs
      else (case py_split sep cs of
              [] \<Rightarrow> [[c]]
            | p # ps \<Rightarrow> (c # p) # ps))"

text \<open>\<open>xs[i]\<close> for an index that is not negative.\<close>

definition py_index :: "'a list \<Rightarrow> nat \<Rightarrow> exn + 'a" where
  "py_index xs i = (if i < length xs then Inr (xs ! i) else Inl (Exn ''IndexError'' ''list index out of range''))"

section \<open>flojoy.py: CtrlPanel.get\_state\<close>

text \<open>
  The body of the loop of \<open>get_state\<close> for one element \<open>el\<close>, on the dict built so far.
  \<open>el['id'].split('-')\<close> needs a string: other values have no \<open>split\<close>.
\<close>

definition get_state_step :: "(string \<times> json) list \<Rightarrow> json \<Rightarrow> exn + (string \<times> json) list" where
  "get_state_step ctrls_dict el =
     (case py_in ''source'' el of
        Inl e \<Rightarrow> Inl e
      | Inr True \<Rightarrow> Inr ctrls_dict
      | Inr False \<Rightarrow>
          (case py_getitem el ''data'' of
             Inl e \<Rightarrow> Inl e
           | Inr data \<Rightarrow>
               (case py_in ''ctrls'' data of
                  Inl e \<Rightarrow> Inl e
                | Inr has_ctrls \<Rightarrow>
                    (case (if has_ctrls then py_getitem data ''ctrls'' else Inr (JObj [])) of
                       Inl e \<Rightarrow> Inl e
                     | Inr ctrls \<Rightarrow>
                         (case py_getitem el ''id'' of
                            Inl e \<Rightarrow> Inl e
                          | Inr (JStr ident) \<Rightarrow>
                              (case py_index (py_split CHR ''-'' ident) 0 of
                                 Inl e \<Rightarrow> Inl e
                               | Inr label \<Rightarrow> Inr (AList.update label ctrls ctrls_dict))
                          | Inr _ \<Rightarrow> Inl (Exn ''AttributeError'' ''split''))))))"

fun get_state_loop :: "json list \<Rightarrow> (string \<times> json) list \<Rightarrow> exn + (string \<times> json) list" where
  "get_state_loop [] ctrls_dict = Inr ctrls_dict"
| "get_state_loop (el # els) ctrls_dict =
     (case get_state_step ctrls_dict el of
        Inl e \<Rightarrow> Inl e
      | Inr d \<Rightarrow> get_state_loop els d)"

text \<open>
  \<open>get_state\<close>, on the document \<open>fc\<close> that \<open>json.loads\<close> returned for the file
  \<open>PYTHON/WATCH/fc.json\<close>.
\<close>

definition get_state :: "json \<Rightarrow> exn + (string \<times> json) list" where
  "get_state fc =
     (case py_getitem fc ''elements'' of
        Inl e \<Rightarrow> Inl e
      | Inr elems \<Rightarrow>
          (case py_elements elems of
             Inl e \<Rightarrow> Inl e
           | Inr els \<Rightarrow> get_state_loop els []))"

text \<open>
  The elements the amended C7 speaks of. A node is a dict without the key \<open>source\<close>; it is
  well formed when its \<open>data\<close> is a dict and its \<open>id\<close> a string. Its label is the part of
  the \<open>id\<close> before the first \<open>-\<close>, its controls are \<open>data.ctrls\<close>, or the empty dict when
  \<open>data\<close> has no \<open>ctrls\<close>.
\<close>

definition is_node :: "json \<Rightarrow> bool" where
  "is_node el = (case el of JObj kvs \<Rightarrow> ''source'' \<notin> set (map fst kvs) | _ \<Rightarrow> False)"

definition well_formed_element :: "json \<Rightarrow> bool" where
  "well_formed_element el =
     (case el of
        JObj kvs \<Rightarrow>
          ''source'' \<in> set (map fst kvs)
          \<or> (case (map_of kvs ''data'', map_of kvs ''id'') of
                (Some (JObj dkvs), Some (JStr ident)) \<Rightarrow> True
              | _ \<Rightarrow> False)
      | _ \<Rightarrow> False)"

definition node_label :: "json \<Rightarrow> string" where
  "node_label el =
     (case el of
        JObj kvs \<Rightarrow> (case map_of kvs ''id'' of Some (JStr ident) \<Rightarrow> takeWhile (\<lambda>c. c \<noteq> CHR ''-'') ident | _ \<Rightarrow> [])
      | _ \<Rightarrow> [])"

definition node_ctrls :: "json \<Rightarrow> json" where
  "node_ctrls el =
     (case el of
        JObj kvs \<Rightarrow>
          (case map_of kvs ''data'' of
             Some (JObj dkvs) \<Rightarrow> (case map_of dkvs ''ctrls'' of Some c \<Rightarrow> c | None \<Rightarrow> JObj [])
           | _ \<Rightarrow> JObj [])
      | _ \<Rightarrow> JObj [])"

definition fc_sine_without_ctrls :: json where
  "fc_sine_without_ctrls =
     JObj [(''elements'', JArr [JObj [(''id'', JStr ''SINE-1''), (''data'', JObj [])]])]"

definition fc_edge_with_ctrls :: json where
  "fc_edge_with_ctrls =
     JObj [(''elements'',
       JArr [JObj [(''id'', JStr ''SINE-1''), (''source'', JStr ''LINSPACE-0''),
                   (''data'', JObj [(''ctrls'', JObj [(''frequency'', JNum ''5'')])])]])]"

definition fc_two_sines :: json where
  "fc_two_sines =
     JObj [(''elements'',
       JArr [JObj [(''id'', JStr ''SINE-1''),
                   (''data'', JObj [(''ctrls'', JObj [(''frequency'', JNum ''5'')])])],
             JObj [(''id'', JStr ''e1''), (''source'', JStr ''SINE-1''), (''target'', JStr ''SINE-2'')],
             JObj [(''id'', JStr ''SINE-2''),
                   (''data'', JObj [(''ctrls'', JObj [(''frequency'', JNum ''7'')])])]])]"

section \<open>flojoy.py: js\_to\_json\<close>

text \<open>
  A character of the model is a code point below 256. \<open>is_space\<close> is \<open>str.isspace\<close>,
  the white space at which \<open>str.split()\<close> splits; \<open>is_word\<close> is the class \<open>\w\<close> of \<open>re\<close>
  on strings: the underscore and the alphanumeric characters, those of Latin-1 included.
\<close>

definition is_space :: "char \<Rightarrow> bool" where
  "is_space c =
     (let n = (of_char c :: nat)
      in (9 \<le> n \<and> n \<le> 13) \<or> (28 \<le> n \<and> n \<le> 32) \<or> n = 133 \<or> n = 160)"

definition is_word :: "char \<Rightarrow> bool" where
  "is_word c =
     (let n = (of_char c :: nat)
      in (48 \<le> n \<and> n \<le> 57) \<or> (65 \<le> n \<and> n \<le> 90) \<or> n = 95 \<or> (97 \<le> n \<and> n \<le> 122)
         \<or> n = 170 \<or> n = 178 \<or> n = 179 \<or> n = 181 \<or> n = 185 \<or> n = 186
         \<or> (188 \<le> n \<and> n \<le> 190) \<or> (192 \<le> n \<and> n \<le> 214) \<or> (216 \<le> n \<and> n \<le> 246)
         \<or> 248 \<le> n)"

text \<open>The double quote.\<close>

definition dq :: char where
  "dq = CHR 0x22"

text \<open>
  \<open>s.replace(old, new)\<close> for an \<open>old\<close> that is not empty: the occurrences of \<open>old\<close> that
  do not overlap, from the left.
\<close>

function py_replace :: "string \<Rightarrow> string \<Rightarrow> string \<Rightarrow> string" where
  "py_replace old new [] = []"
| "py_replace old new (c # cs) =
     (if old \<noteq> [] \<and> starts_with old (c # cs)
      then new @ py_replace old new (drop (length old) (c # cs))
      else c # py_replace old new cs)"
  by pat_completeness auto
termination
  by (relation "measure (\<lambda>(old, new, s). length s)") auto

text \<open>\<open>s.rstrip(chars)\<close>.\<close>

definition py_rstrip :: "string \<Rightarrow> string \<Rightarrow> string" where
  "py_rstrip chars s = rev (dropWhile (\<lambda>c. c \<in> set chars) (rev s))"

text \<open>\<open>s.split()\<close>: the runs of characters that are no white space.\<close>

function py_split_ws :: "string \<Rightarrow> string list" where
  "py_split_ws [] = []"
| "py_split_ws (c # cs) =
     (if is_space c then py_split_ws cs
      else (c # takeWhile (\<lambda>x. \<not> is_space x) cs) # py_split_ws (dropWhile (\<lambda>x. \<not> is_space x) cs))"
  by pat_completeness auto
termination
  by (relation "measure length") (auto simp: length_dropWhile_le less_Suc_eq_le)

text \<open>\<open>re.sub(r'(\w+)', r'"\1"', s)\<close>: every maximal run of word characters, in double quotes.\<close>

function re_sub_words :: "string \<Rightarrow> string" where
  "re_sub_words [] = []"
| "re_sub_words (c # cs) =
     (if is_word c
      then dq # (c # takeWhile is_word cs) @ dq # re_sub_words (dropWhile is_word cs)
      else c # re_sub_words cs)"
  by pat_completeness auto
termination
  by (relation "measure length") (auto simp: length_dropWhile_le less_Suc_eq_le)

section \<open>json.loads\<close>

text \<open>
  The decoder of the standard library, on the JSON texts whose strings have no \<open>\u\<close>
  escape. A number is kept as its literal text. \<open>JSONDecodeError\<close> is the error of the
  decoder; the nesting is bounded by the fuel, which \<open>json_loads\<close> takes from the length of
  the text.
\<close>

definition decode_error :: "string \<Rightarrow> exn" where
  "decode_error msg = Exn ''JSONDecodeError'' msg"

definition json_ws :: "char \<Rightarrow> bool" where
  "json_ws c = (c = CHR '' '' \<or> c = CHR 0x09 \<or> c = CHR 0x0A \<or> c = CHR 0x0D)"

definition skip_ws :: "string \<Rightarrow> string" where
  "skip_ws s = dropWhile json_ws s"

definition is_digit :: "char \<Rightarrow> bool" where
  "is_digit c = (let n = (of_char c :: nat) in 48 \<le> n \<and> n \<le> 57)"

text \<open>The characters of a string after its opening quote, and the text after its closing quote.\<close>

fun parse_string :: "string \<Rightarrow> exn + (string \<times> string)" where
  "parse_string [] = Inl (decode_error ''Unterminated string'')"
| "parse_string (c # cs) =
     (if c = dq then Inr ([], cs)
      else if c = CHR 0x5C then
        (case cs of
           [] \<Rightarrow> Inl (decode_error ''Unterminated string'')
         | e # rest \<Rightarrow>
             (case map_of [(dq, dq), (CHR 0x5C, CHR 0x5C), (CHR ''/'', CHR ''/''), (CHR ''b'', CHR 0x08),
                           (CHR ''f'', CHR 0x0C), (CHR ''n'', CHR 0x0A), (CHR ''r'', CHR 0x0D),
                           (CHR ''t'', CHR 0x09)] e of
                Some x \<Rightarrow> (case parse_string rest of
                             Inl err \<Rightarrow> Inl err
                           | Inr (s, after) \<Rightarrow> Inr (x # s, after))
              | None \<Rightarrow>
                  (if e = CHR ''u'' then Inl (Exn ''NotModelled'' ''a unicode escape'')
                   else Inl (decode_error ''Invalid escape''))))
      else if (of_char c :: nat) < 32 then Inl (decode_error ''Invalid control character'')
      else (case parse_string cs of
              Inl err \<Rightarrow> Inl err
            | Inr (s, after) \<Rightarrow> Inr (c # s, after)))"

text \<open>
  The literal of a number at the head of the text, as the pattern
  \<open>(-?(?:0|[1-9]\d*))(\.\d+)?([eE][-+]?\d+)?\<close> matches it, and the text after it.
\<close>

definition scan_digits :: "string \<Rightarrow> string \<times> string" where
  "scan_digits s = (takeWhile is_digit s, dropWhile is_digit s)"

definition scan_int :: "string \<Rightarrow> (string \<times> string) option" where
  "scan_int s =
     (case s of
        [] \<Rightarrow> None
      | c # cs \<Rightarrow>
          (if c = CHR ''0'' then Some ([c], cs)
           else if is_digit c then Some (c # fst (scan_digits cs), snd (scan_digits cs))
           else None))"

definition scan_frac :: "string \<Rightarrow> string \<times> string" where
  "scan_frac s =
     (case s of
        c # d # cs \<Rightarrow>
          (if c = CHR ''.'' \<and> is_digit d then (c # d # fst (scan_digits cs), snd (scan_digits cs))
           else ([], s))
      | _ \<Rightarrow> ([], s))"

definition scan_exp :: "string \<Rightarrow> string \<times> string" where
  "scan_exp s =
     (case s of
        e # cs \<Rightarrow>
          (if e = CHR ''e'' \<or> e = CHR ''E'' then
             (case cs of
                d # ds \<Rightarrow>
                  (if is_digit d then (e # d # fst (scan_digits ds), snd (scan_digits ds))
                   else if d = CHR ''+'' \<or> d = CHR ''-'' then
                     (case ds of
                        x # xs \<Rightarrow>
                          (if is_digit x then (e # d # x # fst (scan_digits xs), snd (scan_digits xs))
                           else ([], s))
                      | [] \<Rightarrow> ([], s))
                   else ([], s))
              | [] \<Rightarrow> ([], s))
           else ([], s))
      | [] \<Rightarrow> ([], s))"

definition scan_number :: "string \<Rightarrow> (string \<times> string) option" where
  "scan_number s =
     (case (case s of
              c # cs \<Rightarrow> (if c = CHR ''-'' then map_option (\<lambda>(i, r). (c # i, r)) (scan_int cs) else scan_int s)
            | [] \<Rightarrow> None) of
        None \<Rightarrow> None
      | Some (i, r1) \<Rightarrow>
          Some (i @ fst (scan_frac r1) @ fst (scan_exp (snd (scan_frac r1))),
                snd (scan_exp (snd (scan_frac r1)))))"

text \<open>
  A value that is neither a string, an object nor an array: \<open>null\<close>, \<open>true\<close>, \<open>false\<close>,
  a number, \<open>NaN\<close>, \<open>Infinity\<close>, \<open>-Infinity\<close>, in the order the scanner tries them.
\<close>

definition parse_scalar :: "string \<Rightarrow> exn + (json \<times> string)" where
  "parse_scalar s =
     (if starts_with ''null'' s then Inr (JNull, drop 4 s)
      else if starts_with ''true'' s then Inr (JBool True, drop 4 s)
      else if starts_with ''false'' s then Inr (JBool False, drop 5 s)
      else (case scan_number s of
              Some (lit, rest) \<Rightarrow> Inr (JNum lit, rest)
            | None \<Rightarrow>
                (if starts_with ''NaN'' s then Inr (JNum ''NaN'', drop 3 s)
                 else if starts_with ''Infinity'' s then Inr (JNum ''Infinity'', drop 8 s)
                 else if starts_with ''-Infinity'' s then Inr (JNum ''-Infinity'', drop 9 s)
                 else Inl (decode_error ''Expecting value''))))"

text \<open>
  \<open>parse_value\<close> reads one value at the head of the text. \<open>parse_members\<close> reads the
  members of an object after its brace, from a member on, into the dict \<open>acc\<close>: a later
  member replaces the value of an earlier one with its key. \<open>parse_elements\<close> reads the
  elements of an array.
\<close>

fun parse_value :: "nat \<Rightarrow> string \<Rightarrow> exn + (json \<times> string)"
  and parse_members :: "nat \<Rightarrow> string \<Rightarrow> (string \<times> json) list \<Rightarrow> exn + ((string \<times> json) list \<times> string)"
  and parse_elements :: "nat \<Rightarrow> string \<Rightarrow> json list \<Rightarrow> exn + (json list \<times> string)" where
  "parse_value 0 s = Inl (Exn ''RecursionError'' ''maximum recursion depth exceeded'')"
| "parse_value (Suc n) s =
     (case s of
        [] \<Rightarrow> Inl (decode_error ''Expecting value'')
      | c # cs \<Rightarrow>
          (if c = dq then
             (case parse_string cs of
                Inl e \<Rightarrow> Inl e
              | Inr (str, rest) \<Rightarrow> Inr (JStr str, rest))
           else if c = CHR ''{'' then
             (case skip_ws cs of
                [] \<Rightarrow> Inl (decode_error ''Expecting property name enclosed in double quotes'')
              | d # ds \<Rightarrow>
                  (if d = CHR ''}'' then Inr (JObj [], ds)
                   else (case parse_members n (d # ds) [] of
                           Inl e \<Rightarrow> Inl e
                         | Inr (kvs, rest) \<Rightarrow> Inr (JObj kvs, rest))))
           else if c = CHR ''['' then
             (case skip_ws cs of
                [] \<Rightarrow> Inl (decode_error ''Expecting value'')
              | d # ds \<Rightarrow>
                  (if d = CHR '']'' then Inr (JArr [], ds)
                   else (case parse_elements n (d # ds) [] of
                           Inl e \<Rightarrow> Inl e
                         | Inr (xs, rest) \<Rightarrow> Inr (JArr xs, rest))))
           else parse_scalar s))"
| "parse_members 0 s acc = Inl (Exn ''RecursionError'' ''maximum recursion depth exceeded'')"
| "parse_members (Suc n) s acc =
     (case s of
        [] \<Rightarrow> Inl (decode_error ''Expecting property name enclosed in double quotes'')
      | c # cs \<Rightarrow>
          (if c \<noteq> dq then Inl (decode_error ''Expecting property name enclosed in double quotes'')
           else (case parse_string cs of
                   Inl e \<Rightarrow> Inl e
                 | Inr (key, r1) \<Rightarrow>
                     (case skip_ws r1 of
                        [] \<Rightarrow> Inl (decode_error ''Expecting : delimiter'')
                      | d # r2 \<Rightarrow>
                          (if d \<noteq> CHR '':'' then Inl (decode_error ''Expecting : delimiter'')
                           else (case parse_value n (skip_ws r2) of
                                   Inl e \<Rightarrow> Inl e
                                 | Inr (v, r3) \<Rightarrow>
                                     (case skip_ws r3 of
                                        [] \<Rightarrow> Inl (decode_error ''Expecting , delimiter'')
                                      | x # r4 \<Rightarrow>
                                          (if x = CHR ''}'' then Inr (AList.update key v acc, r4)
                                           else if x = CHR '','' then
                                             parse_members n (skip_ws r4) (AList.update key v acc)
                                           else Inl (decode_error ''Expecting , delimiter'')))))))))"
| "parse_elements 0 s acc = Inl (Exn ''RecursionError'' ''maximum recursion depth exceeded'')"
| "parse_elements (Suc n) s acc =
     (case parse_value n s of
        Inl e \<Rightarrow> Inl e
      | Inr (v, r1) \<Rightarrow>
          (case skip_ws r1 of
             [] \<Rightarrow> Inl (decode_error ''Expecting , delimiter'')
           | x # r2 \<Rightarrow>
               (if x = CHR '']'' then Inr (acc @ [v], r2)
                else if x = CHR '','' then parse_elements n (skip_ws r2) (acc @ [v])
                else Inl (decode_error ''Expecting , delimiter''))))"

text \<open>\<open>json.loads(s)\<close>: one value, white space around it, and nothing else.\<close>

definition json_loads :: "string \<Rightarrow> exn + json" where
  "json_loads s =
     (case parse_value (Suc (length s)) (skip_ws s) of
        Inl e \<Rightarrow> Inl e
      | Inr (v, rest) \<Rightarrow> (if skip_ws rest = [] then Inr v else Inl (decode_error ''Extra data'')))"

section \<open>flojoy.py: js\_to\_json and get\_parameter\_manifest\<close>

definition js_to_json :: "string \<Rightarrow> exn + json" where
  "js_to_json s =
     (case py_index (py_split CHR ''='' s) 1 of
        Inl e \<Rightarrow> Inl e
      | Inr split \<Rightarrow>
          (let clean = py_rstrip '';''
                 (py_replace '',}'' ''}'' (py_replace [CHR 0x27] [] (py_replace [CHR 0x0A] [] split)));
               single_space = concat (py_split_ws clean);
               dbl_quotes = py_replace [dq, dq] [dq] (re_sub_words single_space);
               rm_comma = py_replace ''},}'' ''}}'' dbl_quotes
           in json_loads rm_comma))"

text \<open>\<open>get_parameter_manifest\<close>, on the text of the file \<open>PARAMETERS_MANIFEST.js\<close>.\<close>

definition get_parameter_manifest :: "string \<Rightarrow> exn + json" where
  "get_parameter_manifest manifest_js = js_to_json manifest_js"

text \<open>The manifest file of the example of parameter resolution.\<close>

definition sine_manifest_js :: string where
  "sine_manifest_js = ''PARAMETERS = {SINE: {frequency: {default: 1}, amplitude: {default: 1}}};''"

section \<open>flojoy.py: fetch\_inputs\<close>

text \<open>
  The loop inside \<open>try\<close>: \<open>store ea\<close> is what \<open>Job.fetch(ea, connection=Redis()).result\<close>
  gives for the job identifier \<open>ea\<close>, a result or the exception raised. The first
  exception ends the loop; \<open>inputs\<close> keeps what was appended before.
\<close>

fun fetch_loop :: "('i \<Rightarrow> exn + 'v) \<Rightarrow> 'i list \<Rightarrow> 'v list \<Rightarrow> 'v list \<times> exn option" where
  "fetch_loop store [] inputs = (inputs, None)"
| "fetch_loop store (ea # rest) inputs =
     (case store ea of
        Inl e \<Rightarrow> (inputs, Some e)
      | Inr r \<Rightarrow> fetch_loop store rest (inputs @ [r]))"

text \<open>
  \<open>fetch_inputs\<close> returns the list \<open>inputs\<close>; the second component is the exception whose
  traceback the handler printed, if any. \<open>mock_input\<close> stands for the value
  \<open>VectorXY(x = np.linspace(0,10,100))\<close> of the mock mode.
\<close>

definition fetch_inputs :: "('i \<Rightarrow> exn + 'v) \<Rightarrow> 'v \<Rightarrow> 'i list \<Rightarrow> bool \<Rightarrow> 'v list \<times> exn option" where
  "fetch_inputs store mock_input previous_job_ids mock =
     (if mock then ([mock_input], None) else fetch_loop store previous_job_ids [])"

section \<open>flojoy.py: the decorator\<close>

text \<open>
  \<open>for param in pm[FN]: default_params[param] = pm[FN][param]['default']\<close>, for a
  \<open>pm[FN]\<close> that is a dict: \<open>entries\<close> are its items still to visit.
\<close>

fun default_params_loop :: "(string \<times> json) list \<Rightarrow> (string \<times> json) list \<Rightarrow> exn + (string \<times> json) list" where
  "default_params_loop [] default_params = Inr default_params"
| "default_params_loop ((param, entry) # entries) default_params =
     (case py_getitem entry ''default'' of
        Inl e \<Rightarrow> Inl e
      | Inr v \<Rightarrow> default_params_loop entries (AList.update param v default_params))"

text \<open>
  Iterating over \<open>pm[FN]\<close>: a dict gives its keys; an empty list or string gives nothing;
  the characters of a string are no indices of it; \<open>None\<close>, bools and numbers cannot be
  iterated. A list that is not empty is indexed by its own elements, which is a
  \<open>TypeError\<close> unless the element is a number or a bool; that last case is not modelled.
\<close>

definition get_default_params :: "json \<Rightarrow> string \<Rightarrow> exn + (string \<times> json) list" where
  "get_default_params pm FN =
     (case py_getitem pm FN of
        Inl e \<Rightarrow> Inl e
      | Inr (JObj entries) \<Rightarrow> default_params_loop entries []
      | Inr (JArr []) \<Rightarrow> Inr []
      | Inr (JArr (JNum n # xs)) \<Rightarrow> Inl (Exn ''NotModelled'' ''a list indexed by its numbers'')
      | Inr (JArr (JBool b # xs)) \<Rightarrow> Inl (Exn ''NotModelled'' ''a list indexed by its bools'')
      | Inr (JArr (x # xs)) \<Rightarrow> Inl (Exn ''TypeError'' ''list indices must be integers'')
      | Inr (JStr []) \<Rightarrow> Inr []
      | Inr (JStr (c # cs)) \<Rightarrow> Inl (Exn ''TypeError'' ''string indices must be integers'')
      | Inr _ \<Rightarrow> Inl (Exn ''TypeError'' ''object is not iterable''))"

text \<open>
  \<open>for key in default_params.keys(): if key not in func_params.keys():
  func_params[key] = default_params[key]\<close>. Only a dict has \<open>keys\<close>.
\<close>

fun fill_defaults :: "(string \<times> json) list \<Rightarrow> json \<Rightarrow> exn + json" where
  "fill_defaults [] func_params = Inr func_params"
| "fill_defaults ((key, v) # defaults) func_params =
     (case func_params of
        JObj kvs \<Rightarrow>
          fill_defaults defaults
            (if key \<in> set (map fst kvs) then JObj kvs else JObj (AList.update key v kvs))
      | _ \<Rightarrow> Inl (Exn ''AttributeError'' ''keys''))"

text \<open>
  \<open>inner\<close>, for the decorated function \<open>func\<close> of name \<open>FN\<close>. \<open>manifest_js\<close> is the
  text of the file that \<open>get_parameter_manifest()\<close> reads, \<open>panel\<close> what
  \<open>CtrlPanel().get_state()\<close> returned or raised. The result is what
  \<open>func(node_inputs, func_params)\<close> returns or raises, or the exception raised before the
  call. The two \<open>print\<close> calls are left out.
\<close>

definition inner ::
  "('v list \<Rightarrow> json \<Rightarrow> exn + 'r) \<Rightarrow> string \<Rightarrow> string \<Rightarrow> exn + (string \<times> json) list \<Rightarrow>
   ('i \<Rightarrow> exn + 'v) \<Rightarrow> 'v \<Rightarrow> 'i list \<Rightarrow> bool \<Rightarrow> exn + 'r" where
  "inner func FN manifest_js panel store mock_input previous_job_ids mock =
     (case get_parameter_manifest manifest_js of
        Inl e \<Rightarrow> Inl e
      | Inr pm \<Rightarrow>
          (case get_default_params pm FN of
             Inl e \<Rightarrow> Inl e
           | Inr default_params \<Rightarrow>
               (case panel of
                  Inl e \<Rightarrow> Inl e
                | Inr user_set_parameters \<Rightarrow>
                    (case fill_defaults default_params
                            (case map_of user_set_parameters FN of
                               Some ctrls \<Rightarrow> ctrls
                             | None \<Rightarrow> JObj default_params) of
                       Inl e \<Rightarrow> Inl e
                     | Inr func_params \<Rightarrow>
                         func (fst (fetch_inputs store mock_input previous_job_ids mock)) func_params))))"

text \<open>The \<open>default\<close> of an entry of the manifest, when the entry is a dict that has one.\<close>

definition entry_default :: "json \<Rightarrow> json option" where
  "entry_default entry = (case entry of JObj kvs \<Rightarrow> map_of kvs ''default'' | _ \<Rightarrow> None)"

text \<open>The user state of the example of parameter resolution.\<close>

definition sine_user_state :: "(string \<times> json) list" where
  "sine_user_state = [(''SINE'', JObj [(''frequency'', JNum ''5'')])]"

text \<open>A function that returns the inputs and the parameters it was called with.\<close>

definition echo :: "'v list \<Rightarrow> json \<Rightarrow> exn + ('v list \<times> json)" where
  "echo node_inputs params = Inr (node_inputs, params)"

text \<open>A store in which job \<open>a\<close> has result 1 and every other fetch fails.\<close>

definition store_a :: "string \<Rightarrow> exn + int" where
  "store_a ea = (if ea = ''a'' then Inr 1 else Inl (Exn ''NoSuchJobError'' ea))"

section \<open>flojoy.py: VectorXY\<close>

text \<open>
  The values a \<open>VectorXY\<close> is given: an int, a float (its value is of no interest here,
  \<open>'f\<close> stands for it), a list, a numpy array (by its elements), a bool, a string,
  \<open>None\<close>, or an object of another class, by the name \<open>str(type(value))\<close> shows.
\<close>

datatype 'f pyvalue =
    PyInt int
  | PyFloat 'f
  | PyList "'f pyvalue list"
  | PyArray "'f pyvalue list"
  | PyBool bool
  | PyStr string
  | PyNone
  | PyObject string

fun type_name :: "'f pyvalue \<Rightarrow> string" where
  "type_name (PyInt i) = ''int''"
| "type_name (PyFloat x) = ''float''"
| "type_name (PyList xs) = ''list''"
| "type_name (PyArray xs) = ''numpy.ndarray''"
| "type_name (PyBool b) = ''bool''"
| "type_name (PyStr s) = ''str''"
| "type_name PyNone = ''NoneType''"
| "type_name (PyObject n) = n"

text \<open>\<open>str(type(value))\<close>: the name of the type between single quotes, as in \<open><class 'int'>\<close>.\<close>

definition str_type :: "'f pyvalue \<Rightarrow> string" where
  "str_type v = ''<class '' @ [CHR 0x27] @ type_name v @ [CHR 0x27] @ ''>''"

text \<open>
  \<open>_ndarrayify\<close>: \<open>np.array([value])\<close> is the array of the one element, \<open>np.array(value)\<close>
  the array of the elements of the list. The exception raised is \<open>ValueError(value)\<close>; the
  model keeps the name of the type of the value as its message.
\<close>

definition ndarrayify :: "'f pyvalue \<Rightarrow> exn + 'f pyvalue" where
  "ndarrayify v =
     (case py_index (py_split (CHR 0x27) (str_type v)) 1 of
        Inl e \<Rightarrow> Inl e
      | Inr v_type \<Rightarrow>
          (if v_type = ''int'' \<or> v_type = ''float'' then Inr (PyArray [v])
           else if v_type = ''list'' then
             (case v of PyList xs \<Rightarrow> Inr (PyArray xs) | _ \<Rightarrow> Inr (PyArray [v]))
           else if v_type = ''numpy.ndarray'' then Inr v
           else Inl (Exn ''ValueError'' v_type)))"

text \<open>
  A \<open>VectorXY\<close> is a \<open>Box\<close>, a dict: the association list of its items.
  \<open>__setitem__\<close> and \<open>__getitem__\<close> end in the methods of \<open>Box\<close>, which store a value under
  a key and look a key up.
\<close>

definition vxy_setitem :: "(string \<times> 'f pyvalue) list \<Rightarrow> string \<Rightarrow> 'f pyvalue \<Rightarrow> exn + (string \<times> 'f pyvalue) list" where
  "vxy_setitem self key v =
     (if key \<notin> set [''x'', ''y''] then Inl (Exn ''KeyError'' key)
      else (case ndarrayify v of
              Inl e \<Rightarrow> Inl e
            | Inr a \<Rightarrow> Inr (AList.update key a self)))"

definition vxy_getitem :: "(string \<times> 'f pyvalue) list \<Rightarrow> string \<Rightarrow> exn + 'f pyvalue" where
  "vxy_getitem self key =
     (if key \<notin> set [''x'', ''y''] then Inl (Exn ''KeyError'' key)
      else if key = ''_ignore_default'' then Inr PyNone
      else (case map_of self key of
              None \<Rightarrow> Inl (Exn ''BoxKeyError'' key)
            | Some a \<Rightarrow> Inr a))"

text \<open>One of the two halves of \<open>__init__\<close>: the component \<open>key\<close> from the keyword arguments.\<close>

definition vxy_init_component :: "(string \<times> 'f pyvalue) list \<Rightarrow> string \<Rightarrow> (string \<times> 'f pyvalue) list \<Rightarrow> exn + (string \<times> 'f pyvalue) list" where
  "vxy_init_component kwargs key self =
     (case map_of kwargs key of
        Some v \<Rightarrow> (case ndarrayify v of Inl e \<Rightarrow> Inl e | Inr a \<Rightarrow> vxy_setitem self key a)
      | None \<Rightarrow> vxy_setitem self key (PyArray []))"

definition vxy_init :: "(string \<times> 'f pyvalue) list \<Rightarrow> exn + (string \<times> 'f pyvalue) list" where
  "vxy_init kwargs =
     (case vxy_init_component kwargs ''x'' [] of
        Inl e \<Rightarrow> Inl e
      | Inr self \<Rightarrow> vxy_init_component kwargs ''y'' self)"

text \<open>The invariant: the keys are \<open>x\<close> and \<open>y\<close>, once each, and both values are arrays.\<close>

fun is_ndarray :: "'f pyvalue \<Rightarrow> bool" where
  "is_ndarray (PyArray xs) = True"
| "is_ndarray v = False"

definition vxy_inv :: "(string \<times> 'f pyvalue) list \<Rightarrow> bool" where
  "vxy_inv self \<longleftrightarrow>
     distinct (map fst self) \<and> set (map fst self) = {''x'', ''y''} \<and> list_all (\<lambda>kv. is_ndarray (snd kv)) self"

text \<open>What \<open>__setitem__\<close> stores for a value of one of the four types it accepts.\<close>

fun coerced :: "'f pyvalue \<Rightarrow> 'f pyvalue option" where
  "coerced (PyInt i) = Some (PyArray [PyInt i])"
| "coerced (PyFloat x) = Some (PyArray [PyFloat x])"
| "coerced (PyList xs) = Some (PyArray xs)"
| "coerced (PyArray xs) = Some (PyArray xs)"
| "coerced v = None"

text \<open>
  The name of a class other than the four: \<open>str(type(value))\<close> shows it between the
  single quotes, so it holds none itself.
\<close>

definition other_class :: "string \<Rightarrow> bool" where
  "other_class n \<longleftrightarrow>
     CHR 0x27 \<notin> set n \<and> n \<notin> set [''int'', ''float'', ''list'', ''numpy.ndarray'']"

text \<open>A value is proper when, being an object of another class, its class has such a name.\<close>

definition proper_value :: "'f pyvalue \<Rightarrow> bool" where
  "proper_value v = (case v of PyObject n \<Rightarrow> other_class n | _ \<Rightarrow> True)"

text \<open>The keyword arguments of \<open>VectorXY(x=[1, 2])\<close> and the object they give.\<close>

definition xs_only :: "(string \<times> int pyvalue) list" where
  "xs_only = [(''x'', PyList [PyInt 1, PyInt 2])]"

definition xy_arrays :: "(string \<times> int pyvalue) list" where
  "xy_arrays = [(''x'', PyArray [PyInt 1, PyInt 2]), (''y'', PyArray [])]"

section \<open>Object literals of the manifest file\<close>



text \<open>A word: a run of word characters that is not empty.\<close>

definition word :: "string \<Rightarrow> bool" where
  "word w \<longleftrightarrow> w \<noteq> [] \<and> list_all is_word w"

text \<open>The keys and the values are words.\<close>

definition words :: "(string \<times> string) list \<Rightarrow> bool" where
  "words kvs \<longleftrightarrow> list_all (\<lambda>(k, v). word k \<and> word v) kvs"

section \<open>Lemmas on splitting\<close>

lemma py_split_append: "sep \<notin> set a \<Longrightarrow> py_split sep (a @ sep # b) = a # py_split sep b"
  by (induction a) (auto split: list.splits)


section \<open>Properties of the death penalty\<close>

lemma show_nat_digit: "n < 10 \<Longrightarrow> show_nat n = [digit_char n]"
  by (simp add: show_nat.simps)

text \<open>
  C6, as amended. When the timer fires, the error raised is an instance of the configured
  exception class and its message carries the configured timeout in decimal; nothing of the
  keyword arguments of the constructor, the job identifier among them, is part of it.
\<close>

theorem handle_death_penalty_error:
  "handle_death_penalty (dp_init timeout exception kwargs) =
     Exn exception (''Task exceeded maximum timeout value ('' @ show_int timeout @ '' seconds)'')
   \<and> snd (dp_elapse d (setup_death_penalty (dp_init timeout exception kwargs))) =
       (if timeout < d then [handle_death_penalty (dp_init timeout exception [])] else [])"
  by (simp add: handle_death_penalty_def dp_init_def dp_elapse_def setup_death_penalty_def)

text \<open>
  C6 as stated fails: the error raised for job \<open>job-42\<close> with a timeout of 5 seconds does
  not hold the job identifier, and is the error raised for any other job.
\<close>

theorem handle_death_penalty_no_job_id:
  "handle_death_penalty (dp_init 5 ''JobTimeoutException'' [(''job_id'', ''job-42'')]) =
     Exn ''JobTimeoutException'' ''Task exceeded maximum timeout value (5 seconds)''
   \<and> \<not> occurs_in ''job-42''
        (exn_msg (handle_death_penalty (dp_init 5 ''JobTimeoutException'' [(''job_id'', ''job-42'')])))
   \<and> handle_death_penalty (dp_init 5 ''JobTimeoutException'' [(''job_id'', ''job-42'')]) =
     handle_death_penalty (dp_init 5 ''JobTimeoutException'' [(''job_id'', ''job-7'')])"
  by (simp add: handle_death_penalty_def dp_init_def show_int_def show_nat_digit digit_char_def)

section \<open>Properties of perform\_job\<close>

lemma run_cmds_snd_None: "snd (run_cmds f cs) = None \<longleftrightarrow> (\<forall>c \<in> set cs. f c = None)"
  by (induction cs) (auto split: option.splits prod.splits)

lemma run_cmds_None_all: "snd (run_cmds f cs) = None \<Longrightarrow> fst (run_cmds f cs) = cs"
  by (induction cs) (auto split: option.splits prod.splits)

lemma with_death_penalty_fields [simp]:
  "default_result_ttl (with_death_penalty w t i d) = default_result_ttl w"
  "log (with_death_penalty w t i d) = log w"
  "pipeline (with_death_penalty w t i d) = pipeline w"
  "handled (with_death_penalty w t i d) = handled w"
  by (simp_all add: with_death_penalty_def Let_def)

lemma get_result_ttl_updates [simp]:
  "get_result_ttl (j\<lparr>job_status := s\<rparr>) d = get_result_ttl j d"
  "get_result_ttl (j\<lparr>job_status_attr := sa\<rparr>) d = get_result_ttl j d"
  "get_result_ttl (j\<lparr>job_result := r\<rparr>) d = get_result_ttl j d"
  "get_result_ttl (j\<lparr>started_at := a\<rparr>) d = get_result_ttl j d"
  "get_result_ttl (j\<lparr>ended_at := b\<rparr>) d = get_result_ttl j d"
  by (simp_all add: get_result_ttl_def)

lemma perform_job_raises:
  "body_outcome env = Raises e \<Longrightarrow>
   fst (perform_job w j env) = False
   \<and> job_status_attr (snd (snd (perform_job w j env))) = Some FAILED
   \<and> handled (fst (snd (perform_job w j env))) = handled w @ [(job_id j, e)]"
  by (simp add: perform_job_def Let_def job_failed_def)

lemma perform_job_pipeline_raises:
  "body_outcome env = Returns rv \<Longrightarrow>
   snd (run_cmds (pipeline_fault env) (success_cmds (get_result_ttl j (default_result_ttl w)))) = Some e \<Longrightarrow>
   fst (perform_job w j env) = False
   \<and> job_status_attr (snd (snd (perform_job w j env))) = Some FAILED
   \<and> handled (fst (snd (perform_job w j env))) = handled w @ [(job_id j, e)]"
  by (simp add: perform_job_def Let_def job_failed_def)

lemma perform_job_returns:
  "body_outcome env = Returns rv \<Longrightarrow>
   snd (run_cmds (pipeline_fault env) (success_cmds (get_result_ttl j (default_result_ttl w)))) = None \<Longrightarrow>
   fst (perform_job w j env) = True
   \<and> job_status (snd (snd (perform_job w j env))) = FINISHED
   \<and> job_result (snd (snd (perform_job w j env))) = Some rv
   \<and> pipeline (fst (snd (perform_job w j env))) = pipeline w @ success_cmds (get_result_ttl j (default_result_ttl w))
   \<and> log (fst (snd (perform_job w j env))) =
       log w @ [ok_message rv, ttl_message (get_result_ttl j (default_result_ttl w))]"
  by (simp add: perform_job_def Let_def job_failed_def run_cmds_None_all)

lemma perform_job_True:
  assumes "fst (perform_job w j env)"
  shows "\<exists>rv. body_outcome env = Returns rv
     \<and> snd (run_cmds (pipeline_fault env) (success_cmds (get_result_ttl j (default_result_ttl w)))) = None"
proof (cases "body_outcome env")
  case (Raises e)
  with assms perform_job_raises [of env e w j] show ?thesis by simp
next
  case (Returns rv)
  show ?thesis
  proof (cases "snd (run_cmds (pipeline_fault env) (success_cmds (get_result_ttl j (default_result_ttl w))))")
    case None
    with Returns show ?thesis by simp
  next
    case (Some e)
    with assms Returns perform_job_pipeline_raises [of env rv j w e] show ?thesis by simp
  qed
qed

lemma ttl_branches:
  "(ttl = 0 \<and> Save \<notin> set (success_cmds ttl)
           \<and> ttl_message ttl = (INFO, ''Result discarded immediately.''))
      \<or> (ttl > 0 \<and> Save \<in> set (success_cmds ttl)
           \<and> ttl_message ttl = (INFO, ''Result is kept for '' @ show_int ttl @ '' seconds.''))
      \<or> (ttl < 0 \<and> Save \<in> set (success_cmds ttl)
           \<and> ttl_message ttl = (WARNING, ''Result will never expire, clean up result key manually.''))"
  by (cases "ttl = 0"; cases "ttl > 0") (simp_all add: success_cmds_def ttl_message_def)


lemma dp_elapse_all_cancelled: "dp_timer c = Some Cancelled \<Longrightarrow> dp_elapse_all ds c = (c, [])"
  by (induction ds) (simp_all add: dp_elapse_def)

text \<open>
  C3. On the success path of \<open>perform_job\<close> (it returns \<open>True\<close>) the pipeline calls
  issued are those of the resolved result TTL, the last message logged is the TTL message,
  and exactly one of three cases holds: the TTL is 0, \<open>save\<close> is not called and the
  message is the info-level "discarded" one; the TTL is positive, \<open>save\<close> is called and
  the message is the info-level retention one; the TTL is negative, \<open>save\<close> is called
  and the message is the warning-level "never expire" one.
\<close>

theorem perform_job_result_ttl:
  assumes "fst (perform_job w j env)"
  shows "let ttl = get_result_ttl j (default_result_ttl w); w' = fst (snd (perform_job w j env)) in
     pipeline w' = pipeline w @ success_cmds ttl
     \<and> last (log w') = ttl_message ttl
     \<and> ((ttl = 0 \<and> Save \<notin> set (success_cmds ttl)
           \<and> ttl_message ttl = (INFO, ''Result discarded immediately.''))
      \<or> (ttl > 0 \<and> Save \<in> set (success_cmds ttl)
           \<and> ttl_message ttl = (INFO, ''Result is kept for '' @ show_int ttl @ '' seconds.''))
      \<or> (ttl < 0 \<and> Save \<in> set (success_cmds ttl)
           \<and> ttl_message ttl = (WARNING, ''Result will never expire, clean up result key manually.'')))"
proof -
  from assms obtain rv where rv: "body_outcome env = Returns rv"
    and ok: "snd (run_cmds (pipeline_fault env) (success_cmds (get_result_ttl j (default_result_ttl w)))) = None"
    using perform_job_True by blast
  from perform_job_returns [OF rv ok] ttl_branches [of "get_result_ttl j (default_result_ttl w)"]
  show ?thesis by (simp add: Let_def)
qed

text \<open>
  A job with result TTL 0 that returns 42: \<open>perform_job\<close> returns \<open>True\<close>, does not
  save the job and logs that the result is discarded.
\<close>

theorem perform_job_result_ttl_witness:
  "fst (perform_job example_worker (example_job (Some 5) (Some 0)) (example_env 1 (Returns (Some 42)) no_fault))
   \<and> Save \<notin> set (pipeline (fst (snd (perform_job example_worker (example_job (Some 5) (Some 0))
        (example_env 1 (Returns (Some 42)) no_fault)))))
   \<and> last (log (fst (snd (perform_job example_worker (example_job (Some 5) (Some 0))
        (example_env 1 (Returns (Some 42)) no_fault))))) = (INFO, ''Result discarded immediately.'')"
proof -
  have ok: "fst (perform_job example_worker (example_job (Some 5) (Some 0)) (example_env 1 (Returns (Some 42)) no_fault))"
    by (simp add: perform_job_def Let_def example_env_def no_fault_def example_job_def
        example_worker_def get_result_ttl_def success_cmds_def)
  from perform_job_result_ttl [OF ok] ok show ?thesis
    by (simp add: Let_def example_job_def example_worker_def get_result_ttl_def success_cmds_def
        ttl_message_def)
qed

text \<open>
  C5. A penalty that is set up and cancelled after \<open>d\<close> seconds, \<open>d\<close> within its timeout,
  has raised nothing, is cancelled, and stays so and raises nothing however much time
  passes afterwards. And whatever the job body does, the penalty \<open>perform_job\<close> leaves
  behind is cancelled or has fired: none is left waiting.
\<close>

theorem cancel_death_penalty_prevents_firing:
  "(d \<le> dp_timeout dp \<longrightarrow>
      snd (dp_elapse d (setup_death_penalty dp)) = []
      \<and> dp_timer (cancel_death_penalty (fst (dp_elapse d (setup_death_penalty dp)))) = Some Cancelled
      \<and> dp_elapse_all ds (cancel_death_penalty (fst (dp_elapse d (setup_death_penalty dp))))
          = (cancel_death_penalty (fst (dp_elapse d (setup_death_penalty dp))), []))
   \<and> (\<exists>p. penalty (fst (snd (perform_job w j env))) = Some p
          \<and> (dp_timer p = Some Cancelled \<or> dp_timer p = Some Fired))"
proof (intro conjI impI)
  assume d: "d \<le> dp_timeout dp"
  then show "snd (dp_elapse d (setup_death_penalty dp)) = []"
    by (simp add: dp_elapse_def setup_death_penalty_def)
  from d show c: "dp_timer (cancel_death_penalty (fst (dp_elapse d (setup_death_penalty dp)))) = Some Cancelled"
    by (simp add: dp_elapse_def setup_death_penalty_def cancel_death_penalty_def)
  from c show "dp_elapse_all ds (cancel_death_penalty (fst (dp_elapse d (setup_death_penalty dp))))
          = (cancel_death_penalty (fst (dp_elapse d (setup_death_penalty dp))), [])"
    by (rule dp_elapse_all_cancelled)
next
  have "\<exists>p. penalty (with_death_penalty w t i d) = Some p
          \<and> (dp_timer p = Some Cancelled \<or> dp_timer p = Some Fired)" for t i d
    by (simp add: with_death_penalty_def Let_def dp_elapse_def setup_death_penalty_def
        cancel_death_penalty_def)
  then show "\<exists>p. penalty (fst (snd (perform_job w j env))) = Some p
          \<and> (dp_timer p = Some Cancelled \<or> dp_timer p = Some Fired)"
    by (simp add: perform_job_def Let_def job_failed_def split: outcome.splits option.splits)
qed

text \<open>
  A penalty of 5 seconds cancelled after 3: nothing is raised in the 111 seconds that follow.
\<close>

theorem cancel_death_penalty_prevents_firing_witness:
  "(3::int) \<le> dp_timeout (dp_init 5 ''JobTimeoutException'' [(''job_id'', ''job-42'')])
   \<and> dp_elapse_all [1, 10, 100]
       (cancel_death_penalty (fst (dp_elapse 3 (setup_death_penalty (dp_init 5 ''JobTimeoutException'' [(''job_id'', ''job-42'')])))))
     = (cancel_death_penalty (fst (dp_elapse 3 (setup_death_penalty (dp_init 5 ''JobTimeoutException'' [(''job_id'', ''job-42'')])))), [])"
proof -
  have h: "(3::int) \<le> dp_timeout (dp_init 5 ''JobTimeoutException'' [(''job_id'', ''job-42'')])"
    by (simp add: dp_init_def)
  from h cancel_death_penalty_prevents_firing
    [of 3 "dp_init 5 ''JobTimeoutException'' [(''job_id'', ''job-42'')]" "[1, 10, 100]"]
  show ?thesis by blast
qed

text \<open>
  C8 at a concrete job: the timeout is 1 second and the body returns 42 after 5 seconds. The
  timer fires and raises \<open>JobTimeoutException\<close> in its own thread; the body is not
  interrupted, the job is recorded FINISHED with result 42 and \<open>perform_job\<close> returns
  \<open>True\<close>.
\<close>

theorem perform_job_timeout_not_enforced:
  "fst (perform_job example_worker (example_job (Some 1) None) (example_env 5 (Returns (Some 42)) no_fault)) = True
   \<and> job_status (snd (snd (perform_job example_worker (example_job (Some 1) None)
        (example_env 5 (Returns (Some 42)) no_fault)))) = FINISHED
   \<and> job_result (snd (snd (perform_job example_worker (example_job (Some 1) None)
        (example_env 5 (Returns (Some 42)) no_fault)))) = Some (Some 42)
   \<and> handled (fst (snd (perform_job example_worker (example_job (Some 1) None)
        (example_env 5 (Returns (Some 42)) no_fault)))) = []
   \<and> timer_thread_raised (fst (snd (perform_job example_worker (example_job (Some 1) None)
        (example_env 5 (Returns (Some 42)) no_fault)))) =
       [Exn ''JobTimeoutException'' ''Task exceeded maximum timeout value (1 seconds)'']"
  by (simp add: perform_job_def Let_def example_env_def no_fault_def example_job_def
        example_worker_def get_result_ttl_def success_cmds_def with_death_penalty_def
        job_timeout_or_default_def dp_elapse_def setup_death_penalty_def dp_init_def
        handle_death_penalty_def show_int_def show_nat_digit digit_char_def)

lemma show_int_180: "show_int 180 = ''180''"
  by (simp add: show_int_def show_nat.simps [of 180] show_nat.simps [of 18] show_nat_digit
      digit_char_def)

text \<open>
  C4 at concrete jobs. A job with the default timeout of 180 seconds whose body returns
  after 200 seconds: the timer fires and raises \<open>JobTimeoutException\<close> in its own thread,
  yet the handler is not called, the attribute \<open>status\<close> is never assigned, \<open>_status\<close> is
  FINISHED and \<open>perform_job\<close> returns \<open>True\<close>. A job whose body raises \<open>ValueError\<close>: the
  handler is called and \<open>perform_job\<close> returns \<open>False\<close>; the handler has assigned FAILED to
  the attribute \<open>status\<close>, and \<open>_status\<close> is still STARTED.
\<close>

theorem perform_job_timeout_interrupt_not_failed:
  "fst (perform_job example_worker (example_job None None) (example_env 200 (Returns None) no_fault)) = True
   \<and> job_status (snd (snd (perform_job example_worker (example_job None None)
        (example_env 200 (Returns None) no_fault)))) = FINISHED
   \<and> job_status_attr (snd (snd (perform_job example_worker (example_job None None)
        (example_env 200 (Returns None) no_fault)))) = None
   \<and> handled (fst (snd (perform_job example_worker (example_job None None)
        (example_env 200 (Returns None) no_fault)))) = []
   \<and> timer_thread_raised (fst (snd (perform_job example_worker (example_job None None)
        (example_env 200 (Returns None) no_fault)))) =
       [Exn ''JobTimeoutException'' ''Task exceeded maximum timeout value (180 seconds)'']
   \<and> fst (perform_job example_worker (example_job None None)
        (example_env 1 (Raises (Exn ''ValueError'' ''bad input'')) no_fault)) = False
   \<and> handled (fst (snd (perform_job example_worker (example_job None None)
        (example_env 1 (Raises (Exn ''ValueError'' ''bad input'')) no_fault)))) =
       [(''job-42'', Exn ''ValueError'' ''bad input'')]
   \<and> job_status_attr (snd (snd (perform_job example_worker (example_job None None)
        (example_env 1 (Raises (Exn ''ValueError'' ''bad input'')) no_fault)))) = Some FAILED
   \<and> job_status (snd (snd (perform_job example_worker (example_job None None)
        (example_env 1 (Raises (Exn ''ValueError'' ''bad input'')) no_fault)))) = STARTED"
  by (simp add: perform_job_def Let_def example_env_def no_fault_def example_job_def
        example_worker_def get_result_ttl_def success_cmds_def with_death_penalty_def
        job_timeout_or_default_def dp_elapse_def setup_death_penalty_def dp_init_def
        handle_death_penalty_def show_int_180 job_failed_def)

section \<open>Properties of get\_state\<close>

lemma py_split_takeWhile: "py_index (py_split sep s) 0 = Inr (takeWhile (\<lambda>c. c \<noteq> sep) s)"
proof -
  have "\<exists>ps. py_split sep s = takeWhile (\<lambda>c. c \<noteq> sep) s # ps"
    by (induction s) (auto split: list.splits)
  then show ?thesis by (auto simp: py_index_def)
qed

lemma in_keys_iff: "k \<in> fst ` set kvs \<longleftrightarrow> (\<exists>v. map_of kvs k = Some v)"
  by (metis map_of_eq_None_iff not_None_eq)

lemma get_state_step_node:
  "is_node el \<Longrightarrow> well_formed_element el \<Longrightarrow>
   get_state_step d el = Inr (AList.update (node_label el) (node_ctrls el) d)"
  by (auto simp: is_node_def well_formed_element_def get_state_step_def py_in_def py_getitem_def
      node_label_def node_ctrls_def py_split_takeWhile in_keys_iff
      split: json.splits option.splits)

lemma get_state_step_edge:
  "\<not> is_node el \<Longrightarrow> well_formed_element el \<Longrightarrow> get_state_step d el = Inr d"
  by (auto simp: is_node_def well_formed_element_def get_state_step_def py_in_def in_keys_iff
      split: json.splits)

lemma get_state_loop_nodes:
  "\<forall>el \<in> set els. well_formed_element el \<Longrightarrow>
   get_state_loop els d =
     Inr (fold (\<lambda>el. AList.update (node_label el) (node_ctrls el)) (filter is_node els) d)"
proof (induction els arbitrary: d)
  case Nil
  then show ?case by simp
next
  case (Cons el els)
  then show ?case
    by (cases "is_node el") (simp_all add: get_state_step_node get_state_step_edge)
qed

lemma map_of_fold_update:
  "map_of (fold (\<lambda>x. AList.update (f x) (g x)) xs d) = map_of d ++ map_of (rev (map (\<lambda>x. (f x, g x)) xs))"
  by (induction xs arbitrary: d) (simp_all add: update_conv')

lemma distinct_fold_update:
  "distinct (map fst d) \<Longrightarrow> distinct (map fst (fold (\<lambda>x. AList.update (f x) (g x)) xs d))"
  by (induction xs arbitrary: d) (simp_all add: distinct_update)

text \<open>
  C7, as amended. For a document whose \<open>elements\<close> is a list of well-formed elements,
  \<open>get_state\<close> returns a dict that maps a label to the controls of the last node (element
  without \<open>source\<close>) of that label, and holds no other key: a node contributes whether or
  not its \<open>data\<close> has \<open>ctrls\<close> (the empty dict when it has none), an element with a
  \<open>source\<close> key contributes nothing, and of two nodes with one label the later wins.
\<close>

theorem get_state_nodes:
  assumes "py_getitem fc ''elements'' = Inr (JArr els)"
    and "\<forall>el \<in> set els. well_formed_element el"
  shows "\<exists>d. get_state fc = Inr d \<and> distinct (map fst d)
     \<and> (\<forall>label. map_of d label =
          map_of (rev (map (\<lambda>el. (node_label el, node_ctrls el)) (filter is_node els))) label)"
  using assms
  by (simp add: get_state_def py_elements_def get_state_loop_nodes map_of_fold_update
      distinct_fold_update)

text \<open>
  Two nodes \<open>SINE-1\<close> and \<open>SINE-2\<close> and an edge between them: the label \<open>SINE\<close> is
  mapped to the controls of \<open>SINE-2\<close>, the edge is no key of the result.
\<close>

theorem get_state_nodes_witness:
  "\<exists>d. get_state fc_two_sines = Inr d
     \<and> map_of d ''SINE'' = Some (JObj [(''frequency'', JNum ''7'')])
     \<and> map_of d ''e1'' = None"
proof -
  let ?els = "[JObj [(''id'', JStr ''SINE-1''),
                   (''data'', JObj [(''ctrls'', JObj [(''frequency'', JNum ''5'')])])],
             JObj [(''id'', JStr ''e1''), (''source'', JStr ''SINE-1''), (''target'', JStr ''SINE-2'')],
             JObj [(''id'', JStr ''SINE-2''),
                   (''data'', JObj [(''ctrls'', JObj [(''frequency'', JNum ''7'')])])]]"
  have a: "py_getitem fc_two_sines ''elements'' = Inr (JArr ?els)"
    by (simp add: fc_two_sines_def py_getitem_def)
  have b: "\<forall>el \<in> set ?els. well_formed_element el"
    by (simp add: well_formed_element_def)
  from get_state_nodes [OF a b] show ?thesis
    by (auto simp: is_node_def node_label_def node_ctrls_def)
qed

text \<open>
  C7 as stated fails. A node \<open>SINE-1\<close> whose \<open>data\<close> has no \<open>ctrls\<close> still
  contributes the pair of \<open>SINE\<close> and the empty dict; an element \<open>SINE-1\<close> with a
  \<open>data.ctrls\<close> mapping and a \<open>source\<close> key contributes nothing.
\<close>

theorem get_state_not_exactly_ctrls_elements:
  "get_state fc_sine_without_ctrls = Inr [(''SINE'', JObj [])]
   \<and> get_state fc_edge_with_ctrls = Inr []"
  by (simp add: get_state_def fc_sine_without_ctrls_def fc_edge_with_ctrls_def py_getitem_def
      py_elements_def get_state_step_def py_in_def py_index_def)

section \<open>Properties of the decorator and of fetch\_inputs\<close>

lemma fetch_loop_prefix:
  "fetch_loop store ids acc =
     (acc @ map (\<lambda>i. projr (store i)) (takeWhile (\<lambda>i. \<not> isl (store i)) ids),
      case dropWhile (\<lambda>i. \<not> isl (store i)) ids of [] \<Rightarrow> None | i # rest \<Rightarrow> Some (projl (store i)))"
  by (induction ids arbitrary: acc) (auto split: sum.splits)

lemma py_getitem_default:
  "entry_default entry = Some v \<Longrightarrow> py_getitem entry ''default'' = Inr v"
  by (auto simp: entry_default_def py_getitem_def split: json.splits)

lemma default_params_loop_map_of:
  "\<forall>(p, entry) \<in> set entries. entry_default entry \<noteq> None \<Longrightarrow> distinct (map fst entries) \<Longrightarrow>
   fst ` set acc \<inter> fst ` set entries = {} \<Longrightarrow>
   \<exists>dp. default_params_loop entries acc = Inr dp
      \<and> (\<forall>p. map_of dp p =
            (case map_of acc p of Some v \<Rightarrow> Some v | None \<Rightarrow> Option.bind (map_of entries p) entry_default))"
proof (induction entries arbitrary: acc)
  case Nil
  then show ?case by (auto split: option.splits)
next
  case (Cons pe entries)
  obtain p entry where pe: "pe = (p, entry)" by (cases pe)
  with Cons.prems obtain v where v: "entry_default entry = Some v" by auto
  have disj: "fst ` set (AList.update p v acc) \<inter> fst ` set entries = {}"
    using Cons.prems pe by (auto simp: dom_update image_iff) 
  from Cons.prems pe have "\<forall>(p, entry) \<in> set entries. entry_default entry \<noteq> None"
    and "distinct (map fst entries)" by auto
  from Cons.IH [OF this disj] obtain dp where
    dp: "default_params_loop entries (AList.update p v acc) = Inr dp"
    and m: "\<forall>q. map_of dp q =
            (case map_of (AList.update p v acc) q of Some v \<Rightarrow> Some v
             | None \<Rightarrow> Option.bind (map_of entries q) entry_default)"
    by blast
  have pacc: "map_of acc p = None"
    using Cons.prems(3) pe by (auto simp: map_of_eq_None_iff)
  show ?case
    using dp m v pe pacc
    by (auto simp: py_getitem_default update_conv' split: option.splits)
qed


lemma fill_defaults_fold:
  "fill_defaults dp (JObj kvs) =
     Inr (JObj (fold (\<lambda>(k, v) kvs. if k \<in> fst ` set kvs then kvs else AList.update k v kvs) dp kvs))"
  by (induction dp arbitrary: kvs) auto

lemma map_of_fill_fold:
  "map_of (fold (\<lambda>(k, v) kvs. if k \<in> fst ` set kvs then kvs else AList.update k v kvs) dp kvs) p =
     (case map_of kvs p of Some v \<Rightarrow> Some v | None \<Rightarrow> map_of dp p)"
proof (induction dp arbitrary: kvs)
  case Nil
  then show ?case by (simp split: option.splits)
next
  case (Cons kv dp)
  obtain key v where kv: "kv = (key, v)" by (cases kv)
  show ?case
  proof (cases "key \<in> set (map fst kvs)")
    case True
    then obtain w where "map_of kvs key = Some w" by (auto simp: in_keys_iff)
    with True kv show ?thesis by (simp add: Cons.IH split: option.splits)
  next
    case False
    then have "map_of kvs key = None" by (simp add: map_of_eq_None_iff)
    with False kv show ?thesis by (simp add: Cons.IH update_conv' split: option.splits)
  qed
qed

lemma fill_defaults_map_of:
  "\<exists>fp. fill_defaults dp (JObj kvs) = Inr (JObj fp)
      \<and> (\<forall>p. map_of fp p = (case map_of kvs p of Some v \<Rightarrow> Some v | None \<Rightarrow> map_of dp p))"
  by (simp add: fill_defaults_fold map_of_fill_fold)

lemma sine_manifest_parsed:
  "get_parameter_manifest sine_manifest_js =
     Inr (JObj [(''SINE'', JObj [(''frequency'', JObj [(''default'', JStr ''1'')]),
                                 (''amplitude'', JObj [(''default'', JStr ''1'')])])])"
  by code_simp

lemma sine_default_params:
  "get_default_params
     (JObj [(''SINE'', JObj [(''frequency'', JObj [(''default'', JStr ''1'')]),
                             (''amplitude'', JObj [(''default'', JStr ''1'')])])]) ''SINE'' =
     Inr [(''frequency'', JStr ''1''), (''amplitude'', JStr ''1'')]"
  by (simp add: get_default_params_def py_getitem_def)

lemma sine_inner:
  "inner echo ''SINE'' sine_manifest_js (Inr sine_user_state) store_a 0 ids False =
     Inr (fst (fetch_inputs store_a 0 ids False),
          JObj [(''frequency'', JNum ''5''), (''amplitude'', JStr ''1'')])"
  by (simp add: inner_def sine_manifest_parsed sine_default_params sine_user_state_def echo_def)

text \<open>
  C1, as amended. The manifest file parses to a manifest with an entry for the function, a
  dict of parameters each with a \<open>default\<close>; the user state has controls for the function
  (a dict \<open>ctrls\<close>) or none. Then \<open>inner\<close> raises nothing of its own and calls the function
  with a dict of parameters in which a parameter of the user state has the user's value,
  every other parameter of the manifest has its default as the manifest file parses, and so
  every parameter of the manifest is present.
\<close>

theorem inner_resolves_parameters:
  assumes parsed: "get_parameter_manifest manifest_js = Inr pm"
    and manifest: "py_getitem pm FN = Inr (JObj entries)"
    and keys: "distinct (map fst entries)"
    and defaults: "\<forall>(p, entry) \<in> set entries. entry_default entry \<noteq> None"
    and user: "(map_of us FN = Some (JObj ctrls)) \<or> (map_of us FN = None \<and> ctrls = [])"
  shows "\<exists>fp. inner func FN manifest_js (Inr us) store mock_input ids mock =
             func (fst (fetch_inputs store mock_input ids mock)) (JObj fp)
     \<and> (\<forall>p. map_of fp p =
           (case map_of ctrls p of
              Some v \<Rightarrow> Some v
            | None \<Rightarrow> Option.bind (map_of entries p) entry_default))
     \<and> (\<forall>p \<in> set (map fst entries). map_of fp p \<noteq> None)"
proof -
  from default_params_loop_map_of [OF defaults keys, of "[]"]
  obtain dp where dp: "default_params_loop entries [] = Inr dp"
    and dpm: "\<forall>p. map_of dp p = Option.bind (map_of entries p) entry_default"
    by auto
  let ?start = "case map_of us FN of Some c \<Rightarrow> c | None \<Rightarrow> JObj dp"
  obtain kvs where start: "?start = JObj kvs"
    and kvs: "\<forall>p. (case map_of kvs p of Some v \<Rightarrow> Some v | None \<Rightarrow> map_of dp p) =
       (case map_of ctrls p of Some v \<Rightarrow> Some v | None \<Rightarrow> map_of dp p)"
    using user by (auto split: option.splits)
  from fill_defaults_map_of [of dp kvs] obtain fp where
    fp: "fill_defaults dp (JObj kvs) = Inr (JObj fp)"
    and fpm: "\<forall>p. map_of fp p = (case map_of kvs p of Some v \<Rightarrow> Some v | None \<Rightarrow> map_of dp p)"
    by blast
  have run: "inner func FN manifest_js (Inr us) store mock_input ids mock =
             func (fst (fetch_inputs store mock_input ids mock)) (JObj fp)"
    using parsed manifest dp start fp by (simp add: inner_def get_default_params_def)
  have m: "\<forall>p. map_of fp p =
           (case map_of ctrls p of Some v \<Rightarrow> Some v
            | None \<Rightarrow> Option.bind (map_of entries p) entry_default)"
    using fpm kvs dpm by (simp split: option.splits)
  have "\<forall>p \<in> set (map fst entries). map_of fp p \<noteq> None"
  proof
    fix p assume "p \<in> set (map fst entries)"
    then obtain entry where e: "map_of entries p = Some entry"
      by (auto simp: in_keys_iff)
    then have "(p, entry) \<in> set entries" by (rule map_of_SomeD)
    with defaults have "entry_default entry \<noteq> None" by auto
    with e m show "map_of fp p \<noteq> None" by (auto split: option.splits)
  qed
  with run m show ?thesis by blast
qed

text \<open>
  The example of the specification, from the manifest file: \<open>frequency\<close> and \<open>amplitude\<close>
  have the default 1 in the file, the user state sets \<open>frequency\<close> to 5; the function is
  called with \<open>frequency\<close> 5 and with \<open>amplitude\<close> the string \<open>1\<close>.
\<close>

theorem inner_resolves_parameters_witness:
  "\<exists>fp. inner echo ''SINE'' sine_manifest_js (Inr sine_user_state) store_a 0 [] False =
             echo (fst (fetch_inputs store_a 0 [] False)) (JObj fp)
        \<and> map_of fp ''frequency'' = Some (JNum ''5'')
        \<and> map_of fp ''amplitude'' = Some (JStr ''1'')"
proof -
  let ?entries = "[(''frequency'', JObj [(''default'', JStr ''1'')]),
                   (''amplitude'', JObj [(''default'', JStr ''1'')])]"
  have a: "py_getitem (JObj [(''SINE'', JObj ?entries)]) ''SINE'' = Inr (JObj ?entries)"
    by (simp add: py_getitem_def)
  have b: "distinct (map fst ?entries)" by simp
  have c: "\<forall>(p, entry) \<in> set ?entries. entry_default entry \<noteq> None"
    by (simp add: entry_default_def)
  have d: "(map_of sine_user_state ''SINE'' = Some (JObj [(''frequency'', JNum ''5'')]))
     \<or> (map_of sine_user_state ''SINE'' = None \<and> [(''frequency'', JNum ''5'')] = [])"
    by (simp add: sine_user_state_def)
  from inner_resolves_parameters [OF sine_manifest_parsed a b c d, of echo store_a 0 "[]" False]
  obtain fp where run: "inner echo ''SINE'' sine_manifest_js (Inr sine_user_state) store_a 0 [] False =
             echo (fst (fetch_inputs store_a 0 [] False)) (JObj fp)"
    and m: "\<forall>p. map_of fp p =
           (case map_of [(''frequency'', JNum ''5'')] p of
              Some v \<Rightarrow> Some v
            | None \<Rightarrow> Option.bind (map_of ?entries p) entry_default)"
    by blast
  from m have "map_of fp ''frequency'' = Some (JNum ''5'')"
    and "map_of fp ''amplitude'' = Some (JStr ''1'')"
    by (simp_all add: entry_default_def)
  with run show ?thesis by blast
qed

text \<open>
  C1 as stated fails at its example. The manifest file gives \<open>frequency\<close> and \<open>amplitude\<close>
  the default 1 and the user state sets \<open>frequency\<close> to 5: the function is called with
  \<open>amplitude\<close> the string \<open>1\<close>, not the number 1, since \<open>js_to_json\<close> puts every word of
  the file in double quotes.
\<close>

theorem inner_default_is_a_string:
  "inner echo ''SINE'' sine_manifest_js (Inr sine_user_state) store_a 0 [] False =
     Inr ([], JObj [(''frequency'', JNum ''5''), (''amplitude'', JStr ''1'')])
   \<and> inner echo ''SINE'' sine_manifest_js (Inr sine_user_state) store_a 0 [] False \<noteq>
     Inr ([], JObj [(''frequency'', JNum ''5''), (''amplitude'', JNum ''1'')])"
  by (simp add: sine_inner fetch_inputs_def)

text \<open>
  C2, as amended. \<open>fetch_inputs\<close> raises nothing: it returns the results of the job
  identifiers before the first whose fetch raises, and the handler prints that exception.
  The list is empty when the first fetch raises. The decorated function is still called, on
  the list returned.
\<close>

theorem fetch_inputs_keeps_fetched_prefix:
  "fetch_inputs store mock_input ids False =
     (map (\<lambda>i. projr (store i)) (takeWhile (\<lambda>i. \<not> isl (store i)) ids),
      case dropWhile (\<lambda>i. \<not> isl (store i)) ids of [] \<Rightarrow> None | i # rest \<Rightarrow> Some (projl (store i)))
   \<and> (isl (store i) \<longrightarrow> fst (fetch_inputs store mock_input (i # rest) False) = [])
   \<and> (get_parameter_manifest manifest_js = Inr pm
        \<and> get_default_params pm FN = Inr dp
        \<and> fill_defaults dp (case map_of us FN of Some c \<Rightarrow> c | None \<Rightarrow> JObj dp) = Inr fp \<longrightarrow>
      inner func FN manifest_js (Inr us) store mock_input ids False =
        func (map (\<lambda>i. projr (store i)) (takeWhile (\<lambda>i. \<not> isl (store i)) ids)) fp)"
  by (auto simp: fetch_inputs_def fetch_loop_prefix inner_def split: sum.splits)

text \<open>
  The fetch of job \<open>b\<close> fails first: the inputs are empty and the function is called.
\<close>

theorem fetch_inputs_keeps_fetched_prefix_witness:
  "isl (store_a ''b'')
   \<and> fst (fetch_inputs store_a 0 [''b'', ''a''] False) = []
   \<and> inner echo ''SINE'' sine_manifest_js (Inr sine_user_state) store_a 0 [''b'', ''a''] False =
       Inr ([], JObj [(''frequency'', JNum ''5''), (''amplitude'', JStr ''1'')])"
proof -
  have a: "isl (store_a ''b'')" by (simp add: store_a_def)
  have b: "fill_defaults [(''frequency'', JStr ''1''), (''amplitude'', JStr ''1'')]
         (case map_of sine_user_state ''SINE'' of Some c \<Rightarrow> c
          | None \<Rightarrow> JObj [(''frequency'', JStr ''1''), (''amplitude'', JStr ''1'')]) =
       Inr (JObj [(''frequency'', JNum ''5''), (''amplitude'', JStr ''1'')])"
    by (simp add: sine_user_state_def)
  have c: "takeWhile (\<lambda>i. \<not> isl (store_a i)) [''b'', ''a''] = []"
    by (simp add: store_a_def)
  note t = fetch_inputs_keeps_fetched_prefix
    [of store_a 0 "[''b'', ''a'']" "''b''" "[''a'']" sine_manifest_js
      "JObj [(''SINE'', JObj [(''frequency'', JObj [(''default'', JStr ''1'')]),
                              (''amplitude'', JObj [(''default'', JStr ''1'')])])]"
      "''SINE''" "[(''frequency'', JStr ''1''), (''amplitude'', JStr ''1'')]" sine_user_state
      "JObj [(''frequency'', JNum ''5''), (''amplitude'', JStr ''1'')]" echo]
  from t [THEN conjunct2, THEN conjunct1, THEN mp, OF a]
  have e: "fst (fetch_inputs store_a 0 [''b'', ''a''] False) = []" .
  from t [THEN conjunct2, THEN conjunct2, THEN mp,
      OF conjI [OF sine_manifest_parsed conjI [OF sine_default_params b]]]
  have "inner echo ''SINE'' sine_manifest_js (Inr sine_user_state) store_a 0 [''b'', ''a''] False =
       Inr ([], JObj [(''frequency'', JNum ''5''), (''amplitude'', JStr ''1'')])"
    by (simp only: c list.map echo_def)
  with a e show ?thesis by (intro conjI)
qed

text \<open>
  C2 as stated fails: when the fetch of job \<open>a\<close> succeeds and the fetch of job \<open>b\<close>
  raises, the list returned holds the result of \<open>a\<close>; it is not empty.
\<close>

theorem fetch_inputs_not_empty_after_failure:
  "fetch_inputs store_a 0 [''a'', ''b''] False = ([1], Some (Exn ''NoSuchJobError'' ''b''))"
  by (simp add: fetch_inputs_def store_a_def)

section \<open>Properties of VectorXY\<close>

lemma v_type_is_type_name:
  assumes "CHR 0x27 \<notin> set (type_name v)"
  shows "py_index (py_split (CHR 0x27) (str_type v)) (Suc 0) = Inr (type_name v)"
proof -
  have "py_split (CHR 0x27) (''<class '' @ CHR 0x27 # (type_name v @ CHR 0x27 # ''>'')) =
      ''<class '' # py_split (CHR 0x27) (type_name v @ CHR 0x27 # ''>'')"
    by (rule py_split_append) simp
  also have "py_split (CHR 0x27) (type_name v @ CHR 0x27 # ''>'') = type_name v # py_split (CHR 0x27) ''>''"
    using assms by (rule py_split_append)
  finally show ?thesis by (simp add: py_index_def str_type_def)
qed

lemma quote_free_type_name: "proper_value v \<Longrightarrow> CHR 0x27 \<notin> set (type_name v)"
  by (cases v) (auto simp: proper_value_def other_class_def)

lemma ndarrayify_coerced:
  "coerced v = Some a \<Longrightarrow> ndarrayify v = Inr a"
  by (cases v) (auto simp: ndarrayify_def v_type_is_type_name)

lemma ndarrayify_other:
  "coerced v = None \<Longrightarrow> proper_value v \<Longrightarrow>
   ndarrayify v = Inl (Exn ''ValueError'' (type_name v))"
  by (cases v) (auto simp: ndarrayify_def v_type_is_type_name proper_value_def other_class_def)

lemma coerced_is_ndarray: "coerced v = Some a \<Longrightarrow> is_ndarray a"
  by (cases v) auto

lemma ndarrayify_cases:
  "proper_value v \<Longrightarrow>
   ndarrayify v = (case coerced v of Some a \<Rightarrow> Inr a | None \<Rightarrow> Inl (Exn ''ValueError'' (type_name v)))"
  by (cases "coerced v") (simp_all add: ndarrayify_coerced ndarrayify_other)

lemma ndarrayify_array: "is_ndarray a \<Longrightarrow> ndarrayify a = Inr a"
  by (cases a) (auto simp: ndarrayify_coerced)

lemma vxy_inv_update:
  assumes "vxy_inv self" and "key \<in> {''x'', ''y''}" and "is_ndarray a"
  shows "vxy_inv (AList.update key a self)"
proof -
  from assms(1) have d: "distinct (map fst self)"
    and k: "set (map fst self) = {''x'', ''y''}"
    and arr: "\<forall>kv \<in> set self. is_ndarray (snd kv)"
    by (auto simp: vxy_inv_def list_all_iff)
  have "distinct (map fst (AList.update key a self))"
    using d by (rule distinct_update)
  moreover have "set (map fst (AList.update key a self)) = {''x'', ''y''}"
    using k assms(2) by (auto simp: dom_update)
  moreover have "\<forall>kv \<in> set (AList.update key a self). is_ndarray (snd kv)"
  proof
    fix kv assume "kv \<in> set (AList.update key a self)"
    then have "kv = (key, a) \<or> kv \<in> set self"
      by (induction self) (auto split: if_splits)
    with arr assms(3) show "is_ndarray (snd kv)" by auto
  qed
  ultimately show ?thesis by (simp add: vxy_inv_def list_all_iff)
qed

lemma vxy_setitem_ok:
  assumes "vxy_inv self" and "key \<in> {''x'', ''y''}" and "coerced v = Some a"
  shows "vxy_setitem self key v = Inr (AList.update key a self)
    \<and> vxy_inv (AList.update key a self)
    \<and> map_of (AList.update key a self) key = Some a"
  using assms vxy_inv_update [OF assms(1,2) coerced_is_ndarray [OF assms(3)]]
  by (auto simp: vxy_setitem_def ndarrayify_coerced update_conv')

lemma vxy_init_component_x:
  assumes "\<forall>v. map_of kwargs ''x'' = Some v \<longrightarrow> proper_value v"
  shows "vxy_init_component kwargs ''x'' [] =
     (case map_of kwargs ''x'' of
        None \<Rightarrow> Inr [(''x'', PyArray [])]
      | Some v \<Rightarrow> (case coerced v of Some a \<Rightarrow> Inr [(''x'', a)]
                   | None \<Rightarrow> Inl (Exn ''ValueError'' (type_name v))))"
  using assms
  by (auto simp: vxy_init_component_def vxy_setitem_def ndarrayify_cases ndarrayify_array
      coerced_is_ndarray ndarrayify_coerced split: option.splits)

lemma vxy_init_component_y:
  assumes "\<forall>v. map_of kwargs ''y'' = Some v \<longrightarrow> proper_value v"
  shows "vxy_init_component kwargs ''y'' [(''x'', ax)] =
     (case map_of kwargs ''y'' of
        None \<Rightarrow> Inr [(''x'', ax), (''y'', PyArray [])]
      | Some v \<Rightarrow> (case coerced v of Some a \<Rightarrow> Inr [(''x'', ax), (''y'', a)]
                   | None \<Rightarrow> Inl (Exn ''ValueError'' (type_name v))))"
  using assms
  by (auto simp: vxy_init_component_def vxy_setitem_def ndarrayify_cases ndarrayify_array
      coerced_is_ndarray ndarrayify_coerced split: option.splits)


lemma vxy_init_result:
  assumes "\<forall>k v. map_of kwargs k = Some v \<longrightarrow> proper_value v"
  shows "case vxy_init kwargs of
           Inr self \<Rightarrow> vxy_inv self
             \<and> (map_of kwargs ''x'' = None \<longrightarrow> map_of self ''x'' = Some (PyArray []))
             \<and> (map_of kwargs ''y'' = None \<longrightarrow> map_of self ''y'' = Some (PyArray []))
         | Inl e \<Rightarrow> exn_class e = ''ValueError''"
proof -
  from assms have x: "\<forall>v. map_of kwargs ''x'' = Some v \<longrightarrow> proper_value v"
    and y: "\<forall>v. map_of kwargs ''y'' = Some v \<longrightarrow> proper_value v" by auto
  have inv: "is_ndarray ax \<Longrightarrow> is_ndarray ay \<Longrightarrow> vxy_inv [(''x'', ax), (''y'', ay)]" for ax ay :: "'a pyvalue"
    by (auto simp: vxy_inv_def)
  show ?thesis
    unfolding vxy_init_def vxy_init_component_x [OF x]
    by (auto simp: vxy_init_component_y [OF y] inv coerced_is_ndarray split: option.splits)
qed

lemma vxy_setitem_value_error:
  "key \<in> {''x'', ''y''} \<Longrightarrow> coerced v = None \<Longrightarrow> proper_value v \<Longrightarrow>
   vxy_setitem self key v = Inl (Exn ''ValueError'' (type_name v))"
  by (simp add: vxy_setitem_def ndarrayify_other)

lemma vxy_key_error:
  "key \<notin> {''x'', ''y''} \<Longrightarrow>
   vxy_setitem self key v = Inl (Exn ''KeyError'' key)
   \<and> vxy_getitem self key = Inl (Exn ''KeyError'' key)"
  by (simp add: vxy_setitem_def vxy_getitem_def)

lemma vxy_getitem_ok:
  assumes "vxy_inv self" and "key \<in> {''x'', ''y''}"
  shows "\<exists>b. vxy_getitem self key = Inr b \<and> is_ndarray b"
proof -
  from assms have "key \<in> fst ` set self" by (simp add: vxy_inv_def)
  then obtain b where b: "(key, b) \<in> set self" by force
  from assms(1) have "distinct (map fst self)" by (simp add: vxy_inv_def)
  with b have m: "map_of self key = Some b" by simp
  from assms(1) b have "is_ndarray b" by (force simp: vxy_inv_def list_all_iff)
  moreover from assms(2) m have "vxy_getitem self key = Inr b"
    by (auto simp: vxy_getitem_def)
  ultimately show ?thesis by simp
qed

text \<open>
  C9. Construction from keyword arguments gives a \<open>VectorXY\<close> that satisfies the
  invariant, with the empty array for a component that is not given, or raises
  \<open>ValueError\<close>. On a \<open>VectorXY\<close> that satisfies the invariant, \<open>__setitem__\<close> with
  the key \<open>x\<close> or \<open>y\<close> stores the array of an int, a float or a list, or the array
  given, and the invariant holds afterwards; for a value of any other type it raises
  \<open>ValueError\<close>. For any other key \<open>__setitem__\<close> and \<open>__getitem__\<close> raise
  \<open>KeyError\<close>; \<open>__getitem__\<close> with the key \<open>x\<close> or \<open>y\<close> returns an array.
\<close>

theorem vectorxy_invariant:
  "((\<forall>k v. map_of kwargs k = Some v \<longrightarrow> proper_value v) \<longrightarrow>
      (case vxy_init kwargs of
         Inr self \<Rightarrow> vxy_inv self
           \<and> (map_of kwargs ''x'' = None \<longrightarrow> map_of self ''x'' = Some (PyArray []))
           \<and> (map_of kwargs ''y'' = None \<longrightarrow> map_of self ''y'' = Some (PyArray []))
       | Inl e \<Rightarrow> exn_class e = ''ValueError''))
   \<and> (vxy_inv self \<and> key \<in> {''x'', ''y''} \<and> coerced v = Some a \<longrightarrow>
        vxy_setitem self key v = Inr (AList.update key a self)
        \<and> vxy_inv (AList.update key a self)
        \<and> map_of (AList.update key a self) key = Some a)
   \<and> (key \<in> {''x'', ''y''} \<and> coerced v = None \<and> proper_value v \<longrightarrow>
        vxy_setitem self key v = Inl (Exn ''ValueError'' (type_name v)))
   \<and> (key \<notin> {''x'', ''y''} \<longrightarrow>
        vxy_setitem self key v = Inl (Exn ''KeyError'' key)
        \<and> vxy_getitem self key = Inl (Exn ''KeyError'' key))
   \<and> (vxy_inv self \<and> key \<in> {''x'', ''y''} \<longrightarrow>
        (\<exists>b. vxy_getitem self key = Inr b \<and> is_ndarray b))"
  (is "?init \<and> ?set_ok \<and> ?set_value \<and> ?key_error \<and> ?get_ok")
proof -
  have ?init by (rule impI) (rule vxy_init_result)
  moreover have ?set_ok
  proof (rule impI, elim conjE)
    assume "vxy_inv self" and "key \<in> {''x'', ''y''}" and "coerced v = Some a"
    then show "vxy_setitem self key v = Inr (AList.update key a self)
        \<and> vxy_inv (AList.update key a self)
        \<and> map_of (AList.update key a self) key = Some a"
      by (rule vxy_setitem_ok)
  qed
  moreover have ?set_value
  proof (rule impI, elim conjE)
    assume "key \<in> {''x'', ''y''}" and "coerced v = None" and "proper_value v"
    then show "vxy_setitem self key v = Inl (Exn ''ValueError'' (type_name v))"
      by (rule vxy_setitem_value_error)
  qed
  moreover have ?key_error by (rule impI) (rule vxy_key_error)
  moreover have ?get_ok
  proof (rule impI, elim conjE)
    assume "vxy_inv self" and "key \<in> {''x'', ''y''}"
    then show "\<exists>b. vxy_getitem self key = Inr b \<and> is_ndarray b"
      by (rule vxy_getitem_ok)
  qed
  ultimately show ?thesis by (intro conjI)
qed

text \<open>
  \<open>VectorXY(x=[1, 2])\<close> holds the array of 1 and 2 and the empty array; setting
  \<open>y\<close> to 3 stores the array of 3; a string is refused with \<open>ValueError\<close>, the key
  \<open>z\<close> with \<open>KeyError\<close>.
\<close>

theorem vectorxy_invariant_witness:
  "vxy_init xs_only = Inr xy_arrays
   \<and> vxy_inv xy_arrays
   \<and> vxy_setitem xy_arrays ''y'' (PyInt 3) = Inr [(''x'', PyArray [PyInt 1, PyInt 2]), (''y'', PyArray [PyInt 3])]
   \<and> vxy_inv [(''x'', PyArray [PyInt 1, PyInt 2]), (''y'', PyArray [PyInt 3 :: int pyvalue])]
   \<and> vxy_setitem xy_arrays ''y'' (PyStr ''abc'') = Inl (Exn ''ValueError'' ''str'')
   \<and> vxy_setitem xy_arrays ''z'' (PyInt 3) = Inl (Exn ''KeyError'' ''z'')
   \<and> vxy_getitem xy_arrays ''z'' = Inl (Exn ''KeyError'' ''z'')
   \<and> vxy_getitem xy_arrays ''x'' = Inr (PyArray [PyInt 1, PyInt 2])"
proof -
  have init: "vxy_init xs_only = Inr xy_arrays"
    by (simp add: vxy_init_def vxy_init_component_def vxy_setitem_def ndarrayify_def
        str_type_def py_index_def xs_only_def xy_arrays_def)
  have proper: "\<forall>k v. map_of xs_only k = Some v \<longrightarrow> proper_value v"
    by (simp add: xs_only_def proper_value_def)
  have y: "''y'' \<in> {''x'', ''y''}" and z: "''z'' \<notin> {''x'', ''y''}" by simp_all
  have c3: "coerced (PyInt 3 :: int pyvalue) = Some (PyArray [PyInt 3])" by simp
  have cs: "coerced (PyStr ''abc'' :: int pyvalue) = None" by simp
  have ps: "proper_value (PyStr ''abc'' :: int pyvalue)" by (simp add: proper_value_def)
  have get: "vxy_getitem xy_arrays ''x'' = Inr (PyArray [PyInt 1, PyInt 2])"
    by (simp add: vxy_getitem_def xy_arrays_def)
  note t3 = vectorxy_invariant [of xs_only xy_arrays "''y''" "PyInt 3" "PyArray [PyInt 3]"]
  note ts = vectorxy_invariant [of xs_only xy_arrays "''y''" "PyStr ''abc''" "PyArray []"]
  note tz = vectorxy_invariant [of xs_only xy_arrays "''z''" "PyInt 3" "PyArray []"]
  from t3 [THEN conjunct1, THEN mp, OF proper] init
  have inv: "vxy_inv xy_arrays" by simp
  from t3 [THEN conjunct2, THEN conjunct1, THEN mp, OF conjI [OF inv conjI [OF y c3]]]
  have set3: "vxy_setitem xy_arrays ''y'' (PyInt 3) = Inr (AList.update ''y'' (PyArray [PyInt 3]) xy_arrays)"
    and inv3: "vxy_inv (AList.update ''y'' (PyArray [PyInt 3]) xy_arrays)"
    by simp_all
  have upd: "AList.update ''y'' (PyArray [PyInt 3]) xy_arrays =
      [(''x'', PyArray [PyInt 1, PyInt 2]), (''y'', PyArray [PyInt 3])]"
    by (simp add: xy_arrays_def)
  from ts [THEN conjunct2, THEN conjunct2, THEN conjunct1, THEN mp, OF conjI [OF y conjI [OF cs ps]]]
  have sets: "vxy_setitem xy_arrays ''y'' (PyStr ''abc'') = Inl (Exn ''ValueError'' ''str'')"
    by simp
  from tz [THEN conjunct2, THEN conjunct2, THEN conjunct2, THEN conjunct1, THEN mp, OF z]
  have keyz: "vxy_setitem xy_arrays ''z'' (PyInt 3) = Inl (Exn ''KeyError'' ''z'')"
    and getz: "vxy_getitem xy_arrays ''z'' = Inl (Exn ''KeyError'' ''z'')"
    by simp_all
  from set3 inv3 have s3: "vxy_setitem xy_arrays ''y'' (PyInt 3) =
      Inr [(''x'', PyArray [PyInt 1, PyInt 2]), (''y'', PyArray [PyInt 3])]"
    and i3: "vxy_inv [(''x'', PyArray [PyInt 1, PyInt 2]), (''y'', PyArray [PyInt 3 :: int pyvalue])]"
    by (simp_all only: upd)
  from init inv s3 i3 sets keyz getz get show ?thesis by (intro conjI)
qed

section \<open>Properties of js\_to\_json\<close>

lemma not_word_punct:
  "\<not> is_word CHR ''=''" "\<not> is_word CHR '':''" "\<not> is_word CHR '',''" "\<not> is_word CHR '' ''"
  "\<not> is_word CHR ''{''" "\<not> is_word CHR ''}''" "\<not> is_word CHR '';''" "\<not> is_word dq"
  "\<not> is_word (CHR 0x27)" "\<not> is_word (CHR 0x0A)" "\<not> is_word (CHR 0x5C)"
  by (simp_all add: is_word_def dq_def)


lemma word_printable: "is_word c \<Longrightarrow> \<not> (of_char c :: nat) < 32"
  by (auto simp: is_word_def Let_def)










lemma words_Nil: "words []"
  by (simp add: words_def)











lemma parse_string_word:
  "\<forall>c \<in> set w. is_word c \<Longrightarrow> parse_string (w @ dq # rest) = Inr (w, rest)"
proof (induction w)
  case Nil
  then show ?case by simp
next
  case (Cons c w)
  then have "is_word c" by simp
  with not_word_punct have "c \<noteq> dq" and "c \<noteq> CHR 0x5C" by auto
  with Cons \<open>is_word c\<close> show ?case by (simp add: word_printable)
qed

lemma parse_value_word:
  "word w \<Longrightarrow> parse_value (Suc n) (dq # w @ dq # rest) = Inr (JStr w, rest)"
  by (simp add: parse_string_word word_def list_all_iff)
















end
